theory Spec2Isabelle
  imports Main "HOL-Library.Word"
begin

section \<open>Buffers, statuses and the ciphertext blob\<close>

type_synonym u8 = "8 word"
type_synonym u32 = "32 word"
type_synonym bytes = "u8 list"

text \<open>
  \<^verbatim>\<open>mongocrypt_status_t\<close>. Every error raised in the files modelled here is raised
  through \<^verbatim>\<open>CLIENT_ERR (msg)\<close> or \<^verbatim>\<open>_mongocrypt_ctx_fail_w_msg (ctx, msg)\<close>; both
  are declared outside these files and receive nothing but the message, which is what
  the model records.
\<close>

datatype mongocrypt_status = Status_ok | Status_error string

definition CLIENT_ERR :: "string \<Rightarrow> mongocrypt_status" where
  "CLIENT_ERR msg = Status_error msg"

text \<open>
  \<^verbatim>\<open>_mongocrypt_buffer_t\<close>: a pointer with a 32-bit length. The pointer is modelled by
  the bytes it points at; a view \<^verbatim>\<open>p + off\<close> of \<^verbatim>\<open>n\<close> bytes is \<open>take n (drop off bs)\<close>.
\<close>

record mongocrypt_buffer =
  data :: bytes
  len :: u32
  owned :: bool
  subtype :: u8

definition buffer_wf :: "mongocrypt_buffer \<Rightarrow> bool" where
  "buffer_wf b = (length (data b) = unat (len b))"

definition BSON_SUBTYPE_UUID :: u8 where
  "BSON_SUBTYPE_UUID = 4"

text \<open>\<^verbatim>\<open>_mongocrypt_buffer_init\<close> and \<^verbatim>\<open>memset (&buf, 0, sizeof buf)\<close>: the zeroed buffer.\<close>

definition buffer_init :: mongocrypt_buffer where
  "buffer_init = \<lparr>data = [], len = 0, owned = False, subtype = 0\<rparr>"

record mongocrypt_ciphertext =
  blob_subtype :: u8
  key_id :: mongocrypt_buffer
  original_bson_type :: u8
  ciphertext_data :: mongocrypt_buffer

text \<open>
  \<^verbatim>\<open>_parse_ciphertext_unowned\<close> (mongocrypt-ctx-decrypt.c). \<open>Inl st\<close> is the return of
  \<^verbatim>\<open>false\<close> with \<open>st\<close> written to the status; \<open>Inr c\<close> is the return of \<^verbatim>\<open>true\<close>
  with the status untouched.
\<close>

definition parse_ciphertext_unowned ::
  "mongocrypt_buffer \<Rightarrow> mongocrypt_status + mongocrypt_ciphertext" where
  "parse_ciphertext_unowned inb =
     (if len inb < 19 then Inl (CLIENT_ERR ''malformed ciphertext, too small'')
      else
        let b0 = data inb ! 0;
            offset = (1 :: nat)
        in if b0 \<noteq> 1 \<and> b0 \<noteq> 2
           then Inl (CLIENT_ERR ''malformed ciphertext, expected blob subtype of 1 or 2'')
           else
             let kid = buffer_init
                   \<lparr>data := take 16 (drop offset (data inb)), len := 16,
                    subtype := BSON_SUBTYPE_UUID\<rparr>;
                 offset = offset + 16;
                 obt = data inb ! offset;
                 offset = offset + 1;
                 payload = buffer_init
                   \<lparr>data := drop offset (data inb), len := len inb - of_nat offset\<rparr>
             in Inr \<lparr>blob_subtype = b0, key_id = kid, original_bson_type = obt,
                     ciphertext_data = payload\<rparr>)"

section \<open>Documents\<close>

text \<open>
  The documents of the BSON library, as trees. A document is the list of its fields in
  order; a key may repeat. Doubles are kept as their 64-bit pattern. A buffer that holds
  the bytes of a document (or is still zeroed) is modelled by the document it holds.
\<close>

datatype bson_value =
    BSON_DOUBLE "64 word"
  | BSON_UTF8 string
  | BSON_DOCUMENT "(string \<times> bson_value) list"
  | BSON_ARRAY "(string \<times> bson_value) list"
  | BSON_BINARY u8 bytes
  | BSON_UNDEFINED
  | BSON_BOOL bool
  | BSON_NULL
  | BSON_INT32 "32 word"
  | BSON_INT64 "64 word"
  | BSON_OTHER u8 bytes

type_synonym bson_t = "(string \<times> bson_value) list"
type_synonym document_buffer = "bson_t option"

text \<open>
  \<^verbatim>\<open>mongocrypt_binary_t\<close> handed in by the caller: its bytes either frame a document
  (\<^verbatim>\<open>bson_init_static\<close> and \<^verbatim>\<open>_mongocrypt_binary_to_bson\<close> succeed) or do not.
\<close>

datatype mongocrypt_binary = Binary_document bson_t | Binary_malformed bytes

definition bson_init_static :: "mongocrypt_binary \<Rightarrow> bson_t option" where
  "bson_init_static inb = (case inb of Binary_document d \<Rightarrow> Some d | Binary_malformed _ \<Rightarrow> None)"

text \<open>\<^verbatim>\<open>bson_iter_init_find\<close>: the first field with the key, if any.\<close>

fun bson_iter_init_find :: "bson_t \<Rightarrow> string \<Rightarrow> bson_value option" where
  "bson_iter_init_find [] key = None"
| "bson_iter_init_find ((k, v) # rest) key =
     (if k = key then Some v else bson_iter_init_find rest key)"

text \<open>
  \<^verbatim>\<open>bson_iter_init\<close> fails only on a \<^verbatim>\<open>bson_t\<close> shorter than the five bytes of the empty
  document, which a framed document never is.
\<close>

definition bson_iter_init :: "bson_t \<Rightarrow> bool" where
  "bson_iter_init d = True"

text \<open>
  \<^verbatim>\<open>bson_iter_find_descendant\<close> on a dotted key, given as the list of its parts: the
  first field named by the head; the search goes on inside it when it is a document or
  an array, and fails otherwise.
\<close>

fun bson_iter_find_descendant :: "bson_t \<Rightarrow> string list \<Rightarrow> bson_value option" where
  "bson_iter_find_descendant d [] = None"
| "bson_iter_find_descendant d [k] = bson_iter_init_find d k"
| "bson_iter_find_descendant d (k # ks) =
     (case bson_iter_init_find d k of
        Some (BSON_DOCUMENT sub) \<Rightarrow> bson_iter_find_descendant sub ks
      | Some (BSON_ARRAY sub) \<Rightarrow> bson_iter_find_descendant sub ks
      | _ \<Rightarrow> None)"

text \<open>\<^verbatim>\<open>bson_iter_as_bool\<close>.\<close>

fun bson_iter_as_bool :: "bson_value \<Rightarrow> bool" where
  "bson_iter_as_bool (BSON_BOOL b) = b"
| "bson_iter_as_bool (BSON_DOUBLE w) = (take_bit 63 w \<noteq> 0)"
| "bson_iter_as_bool (BSON_INT64 w) = (w \<noteq> 0)"
| "bson_iter_as_bool (BSON_INT32 w) = (w \<noteq> 0)"
| "bson_iter_as_bool (BSON_UTF8 s) = True"
| "bson_iter_as_bool BSON_NULL = False"
| "bson_iter_as_bool BSON_UNDEFINED = False"
| "bson_iter_as_bool v = True"

text \<open>A C string ends at its first NUL: what \<^verbatim>\<open>strcmp\<close> and \<^verbatim>\<open>strstr\<close> read.\<close>

definition c_str :: "string \<Rightarrow> string" where
  "c_str s = takeWhile (\<lambda>c. c \<noteq> CHR 0x00) s"

text \<open>
  \<^verbatim>\<open>_mongocrypt_buffer_copy_from_document_iter\<close>: copies the document under the
  iterator into the buffer, and fails when the value is not a document.
\<close>

definition buffer_copy_from_document_iter :: "bson_value \<Rightarrow> bson_t option" where
  "buffer_copy_from_document_iter v = (case v of BSON_DOCUMENT d \<Rightarrow> Some d | _ \<Rightarrow> None)"

text \<open>\<^verbatim>\<open>_mongocrypt_buffer_empty\<close>, on a buffer of bytes and on a buffer holding a document.\<close>

definition buffer_empty :: "mongocrypt_buffer \<Rightarrow> bool" where
  "buffer_empty b = (data b = [])"

definition document_buffer_empty :: "document_buffer \<Rightarrow> bool" where
  "document_buffer_empty b = (b = None)"

section \<open>Contexts\<close>

datatype mongocrypt_ctx_state =
    MONGOCRYPT_CTX_ERROR
  | MONGOCRYPT_CTX_NOTHING_TO_DO
  | MONGOCRYPT_CTX_NEED_MONGO_COLLINFO
  | MONGOCRYPT_CTX_NEED_MONGO_MARKINGS
  | MONGOCRYPT_CTX_NEED_MONGO_KEYS
  | MONGOCRYPT_CTX_NEED_KMS
  | MONGOCRYPT_CTX_WAITING
  | MONGOCRYPT_CTX_READY
  | MONGOCRYPT_CTX_DONE

datatype mongocrypt_ctx_type =
    MONGOCRYPT_TYPE_NONE
  | MONGOCRYPT_TYPE_ENCRYPT
  | MONGOCRYPT_TYPE_DECRYPT
  | MONGOCRYPT_TYPE_CREATE_DATA_KEY

datatype mongocrypt_encryption_algorithm =
    MONGOCRYPT_ENCRYPTION_ALGORITHM_NONE
  | MONGOCRYPT_ENCRYPTION_ALGORITHM_DETERMINISTIC
  | MONGOCRYPT_ENCRYPTION_ALGORITHM_RANDOM

datatype mongocrypt_cache_pair_state = CACHE_PAIR_PENDING | CACHE_PAIR_DONE

datatype traversal_match = TRAVERSE_MATCH_CIPHERTEXT | TRAVERSE_MATCH_MARKING

datatype mongocrypt_ctx_opt_spec = OPT_PROHIBITED | OPT_REQUIRED | OPT_OPTIONAL

record mongocrypt_ctx_opts_spec =
  spec_masterkey :: mongocrypt_ctx_opt_spec
  spec_schema :: mongocrypt_ctx_opt_spec
  spec_key_descriptor :: mongocrypt_ctx_opt_spec
  spec_iv :: mongocrypt_ctx_opt_spec
  spec_algorithm :: mongocrypt_ctx_opt_spec

text \<open>\<^verbatim>\<open>_mongocrypt_ctx_opts_spec_t opts_spec = {0}\<close>.\<close>

definition opts_spec_zero :: mongocrypt_ctx_opts_spec where
  "opts_spec_zero = \<lparr>spec_masterkey = OPT_PROHIBITED, spec_schema = OPT_PROHIBITED,
     spec_key_descriptor = OPT_PROHIBITED, spec_iv = OPT_PROHIBITED,
     spec_algorithm = OPT_PROHIBITED\<rparr>"

text \<open>\<^verbatim>\<open>_mongocrypt_ctx_opts_t\<close>; a \<^verbatim>\<open>char *\<close> or a pointer that may be NULL is an option.\<close>

record mongocrypt_ctx_opts =
  masterkey_kms_provider :: nat
  masterkey_aws_cmk :: "string option"
  masterkey_aws_cmk_len :: u32
  masterkey_aws_region :: "string option"
  masterkey_aws_region_len :: u32
  local_schema :: document_buffer
  opts_key_id :: mongocrypt_buffer
  opts_key_alt_name :: "bson_value option"
  opts_iv :: mongocrypt_buffer
  algorithm :: mongocrypt_encryption_algorithm

text \<open>
  \<^verbatim>\<open>struct _mongocrypt_ctx_t\<close>. The key broker is a collaborator defined outside these
  files, so its type is a parameter. The engine (\<^verbatim>\<open>crypt\<close>) is shared by all contexts:
  the one part of it these files touch, the collection-info cache, is passed to and
  returned by the functions that use it. The function table is filled at initialisation
  with the functions modelled below, one set per kind of context.
\<close>

record 'kb mongocrypt_ctx =
  state :: mongocrypt_ctx_state
  ctx_type :: mongocrypt_ctx_type
  status :: mongocrypt_status
  kb :: 'kb
  opts :: mongocrypt_ctx_opts
  ctx_id :: u32
  initialized :: bool
  cache_noblock :: bool

text \<open>\<^verbatim>\<open>_mongocrypt_ctx_encrypt_t\<close> and \<^verbatim>\<open>_mongocrypt_ctx_decrypt_t\<close> extend it.\<close>

record 'kb mongocrypt_ctx_encrypt = "'kb mongocrypt_ctx" +
  ectx_explicit :: bool
  ns :: "string option"
  coll_name :: "string option"
  waiting_for_collinfo :: bool
  collinfo_state :: mongocrypt_cache_pair_state
  collinfo_owner :: u32
  list_collections_filter :: document_buffer
  schema :: document_buffer
  original_cmd :: document_buffer
  marking_cmd :: document_buffer
  marked_cmd :: document_buffer
  encrypted_cmd :: document_buffer
  ectx_iv :: mongocrypt_buffer
  ectx_key_id :: mongocrypt_buffer

record 'kb mongocrypt_ctx_decrypt = "'kb mongocrypt_ctx" +
  dctx_explicit :: bool
  original_doc :: document_buffer
  unwrapped_doc :: mongocrypt_buffer
  decrypted_doc :: document_buffer

text \<open>
  \<^verbatim>\<open>_mongocrypt_marking_t\<close>, as far as these files read and write it.
\<close>

record mongocrypt_marking =
  v_iter :: "bson_value option"
  marking_algorithm :: mongocrypt_encryption_algorithm
  marking_iv :: mongocrypt_buffer
  marking_key_id :: mongocrypt_buffer
  has_alt_name :: bool
  marking_key_alt_name :: bson_value

text \<open>
  The header's contract for the two failure helpers: \<^verbatim>\<open>_mongocrypt_ctx_fail\<close>
  "Transition to the error state. An error status must have been set." and
  \<^verbatim>\<open>_mongocrypt_ctx_fail_w_msg\<close> "Set an error status and transition to the error
  state." Every caller returns their result on a failure path: it is \<^verbatim>\<open>false\<close>.
\<close>

definition ctx_fail ::
  "('kb, 'z) mongocrypt_ctx_scheme \<Rightarrow> bool \<times> ('kb, 'z) mongocrypt_ctx_scheme" where
  "ctx_fail ctx = (False, ctx\<lparr>state := MONGOCRYPT_CTX_ERROR\<rparr>)"

definition ctx_fail_w_msg ::
  "('kb, 'z) mongocrypt_ctx_scheme \<Rightarrow> string \<Rightarrow> bool \<times> ('kb, 'z) mongocrypt_ctx_scheme" where
  "ctx_fail_w_msg ctx msg =
     (False, ctx\<lparr>status := CLIENT_ERR msg, state := MONGOCRYPT_CTX_ERROR\<rparr>)"

section \<open>Collaborators\<close>

text \<open>
  The functions these files call but do not define: the key broker, the collection-info
  cache, the crypto primitives, the marking codec, the traversal engine and the common
  initialisation. Each is a parameter of the model, with the arguments the call sites
  pass. A \<^verbatim>\<open>bool\<close> result comes first; an object the callee may write comes back
  with it. \<open>Inl st\<close> is a \<^verbatim>\<open>false\<close> return that wrote \<open>st\<close> to the status.
\<close>

datatype key_broker_readiness =
    KB_READY | KB_NEED_MONGO_KEYS | KB_NEED_KMS | KB_WAITING | KB_ERROR

type_synonym 'kb traverse_callback =
  "'kb \<Rightarrow> mongocrypt_buffer \<Rightarrow> mongocrypt_status \<Rightarrow> bool \<times> 'kb \<times> mongocrypt_status"

type_synonym 'kb transform_callback =
  "'kb \<Rightarrow> mongocrypt_buffer \<Rightarrow> bson_value \<Rightarrow> mongocrypt_status
     \<Rightarrow> bool \<times> bson_value \<times> mongocrypt_status"

record ('kb, 'cache) collaborators =
  key_broker_decrypted_key_by_id :: "'kb \<Rightarrow> mongocrypt_buffer \<Rightarrow> mongocrypt_buffer option"
  key_broker_add_id :: "'kb \<Rightarrow> mongocrypt_buffer \<Rightarrow> bool \<times> 'kb"
  key_broker_add_name :: "'kb \<Rightarrow> bson_value \<Rightarrow> bool \<times> 'kb"
  key_broker_status :: "'kb \<Rightarrow> mongocrypt_status \<Rightarrow> bool \<times> mongocrypt_status"
  key_broker_check_cache_and_wait :: "'kb \<Rightarrow> bool \<Rightarrow> bool \<times> 'kb"
  key_broker_next_ctx_id :: "'kb \<Rightarrow> u32 \<times> 'kb"
  key_broker_readiness :: "'kb \<Rightarrow> key_broker_readiness"
  do_decryption :: "mongocrypt_buffer \<Rightarrow> mongocrypt_buffer \<Rightarrow> mongocrypt_status + bytes"
  buffer_to_bson_value :: "mongocrypt_buffer \<Rightarrow> u8 \<Rightarrow> bson_value option"
  marking_parse_unowned :: "mongocrypt_buffer \<Rightarrow> mongocrypt_status + mongocrypt_marking"
  marking_to_ciphertext ::
    "'kb \<Rightarrow> mongocrypt_marking \<Rightarrow> mongocrypt_status + mongocrypt_ciphertext"
  serialize_ciphertext :: "mongocrypt_ciphertext \<Rightarrow> mongocrypt_buffer"
  traverse_binary_in_bson ::
    "'kb traverse_callback \<Rightarrow> 'kb \<Rightarrow> traversal_match \<Rightarrow> bson_t \<Rightarrow> mongocrypt_status
       \<Rightarrow> bool \<times> 'kb \<times> mongocrypt_status"
  transform_binary_in_bson ::
    "'kb transform_callback \<Rightarrow> 'kb \<Rightarrow> traversal_match \<Rightarrow> bson_t \<Rightarrow> mongocrypt_status
       \<Rightarrow> bool \<times> bson_t \<times> mongocrypt_status"
  cache_get_or_create ::
    "'cache \<Rightarrow> string option \<Rightarrow> u32
       \<Rightarrow> 'cache \<times> bson_t option \<times> mongocrypt_cache_pair_state \<times> u32"
  cache_add_copy ::
    "'cache \<Rightarrow> string option \<Rightarrow> bson_t \<Rightarrow> u32 \<Rightarrow> mongocrypt_status
       \<Rightarrow> bool \<times> 'cache \<times> mongocrypt_status"
  cache_wait :: "'cache \<Rightarrow> mongocrypt_status \<Rightarrow> bool \<times> 'cache \<times> mongocrypt_status"
  validate_and_copy_string :: "string \<Rightarrow> int \<Rightarrow> string option"
  ctx_init :: "'kb mongocrypt_ctx \<Rightarrow> mongocrypt_ctx_opts_spec \<Rightarrow> bool \<times> 'kb mongocrypt_ctx"

text \<open>
  A function of the base context applied to a derived one: it sees and writes the
  fields of \<^verbatim>\<open>mongocrypt_ctx_t\<close> and leaves the rest of the struct alone.
\<close>

definition on_parent ::
  "('kb mongocrypt_ctx \<Rightarrow> bool \<times> 'kb mongocrypt_ctx)
     \<Rightarrow> ('kb, 'z) mongocrypt_ctx_scheme \<Rightarrow> bool \<times> ('kb, 'z) mongocrypt_ctx_scheme" where
  "on_parent f ctx =
     (case f (mongocrypt_ctx.truncate ctx) of
        (r, p) \<Rightarrow> (r, mongocrypt_ctx.extend p (mongocrypt_ctx.more ctx)))"

text \<open>
  Modelled from the spec: \<^verbatim>\<open>_mongocrypt_ctx_state_from_key_broker\<close>, declared in
  mongocrypt-ctx-private.h ("Set the state of the context from the state of keys in the
  key broker.") and defined outside these files. Section 4.4: "computes next state from
  broker readiness: ready => READY; owner-of-pending => NEED_MONGO_KEYS (or NEED_KMS once
  key documents arrive); dependent => WAITING", and "any error path sets the status and
  transitions to ERROR". The readiness itself is the broker's.
\<close>

definition ctx_state_from_key_broker ::
  "('kb, 'cache) collaborators \<Rightarrow> ('kb, 'z) mongocrypt_ctx_scheme
     \<Rightarrow> bool \<times> ('kb, 'z) mongocrypt_ctx_scheme" where
  "ctx_state_from_key_broker env ctx =
     (case key_broker_readiness env (kb ctx) of
        KB_READY \<Rightarrow> (True, ctx\<lparr>state := MONGOCRYPT_CTX_READY\<rparr>)
      | KB_NEED_MONGO_KEYS \<Rightarrow> (True, ctx\<lparr>state := MONGOCRYPT_CTX_NEED_MONGO_KEYS\<rparr>)
      | KB_NEED_KMS \<Rightarrow> (True, ctx\<lparr>state := MONGOCRYPT_CTX_NEED_KMS\<rparr>)
      | KB_WAITING \<Rightarrow> (True, ctx\<lparr>state := MONGOCRYPT_CTX_WAITING\<rparr>)
      | KB_ERROR \<Rightarrow>
          ctx_fail (ctx\<lparr>status := snd (key_broker_status env (kb ctx) (status ctx))\<rparr>))"

text \<open>
  A local variable that the source reads without having initialised it holds whatever
  the stack held: such locals are arguments of the model.
\<close>

record uninitialised =
  value0 :: bson_value
  as_bson0 :: bson_t

text \<open>
  \<^verbatim>\<open>_mongocrypt_buffer_to_bson (&buf, &as_bson)\<close>, whose result these files ignore:
  on a buffer that holds a document \<^verbatim>\<open>as_bson\<close> becomes that document, on an empty
  buffer it is left as it was.
\<close>

definition buffer_to_bson :: "document_buffer \<Rightarrow> bson_t \<Rightarrow> bson_t" where
  "buffer_to_bson buf as_bson = (case buf of Some d \<Rightarrow> d | None \<Rightarrow> as_bson)"

text \<open>
  \<^verbatim>\<open>_mongocrypt_buffer_from_binary_iter\<close>: an unowned view of the binary value under
  the iterator; fails when the value is not a binary.
\<close>

definition buffer_from_binary_iter :: "bson_value \<Rightarrow> mongocrypt_buffer option" where
  "buffer_from_binary_iter v =
     (case v of
        BSON_BINARY st bs \<Rightarrow>
          Some \<lparr>data = bs, len = of_nat (length bs), owned = False, subtype = st\<rparr>
      | _ \<Rightarrow> None)"

section \<open>mongocrypt-ctx-decrypt.c\<close>

text \<open>
  \<^verbatim>\<open>_replace_ciphertext_with_plaintext\<close>. The result is the returned \<^verbatim>\<open>bool\<close>, the
  contents of \<^verbatim>\<open>*out\<close> (the argument \<open>out\<close> when the function did not write it) and
  the status. \<^verbatim>\<open>_mongocrypt_do_decryption\<close> yields the bytes it wrote, which become the
  plaintext buffer.
\<close>

definition replace_ciphertext_with_plaintext ::
  "('kb, 'cache) collaborators \<Rightarrow> 'kb transform_callback" where
  "replace_ciphertext_with_plaintext env kbr inb out st =
     (case parse_ciphertext_unowned inb of
        Inl e \<Rightarrow> (False, out, e)
      | Inr ciphertext \<Rightarrow>
          (case key_broker_decrypted_key_by_id env kbr (key_id ciphertext) of
             None \<Rightarrow> (True, out, st)
           | Some key_material \<Rightarrow>
               (case do_decryption env key_material (ciphertext_data ciphertext) of
                  Inl e \<Rightarrow> (False, out, e)
                | Inr written \<Rightarrow>
                    let plaintext = \<lparr>data = written, len = of_nat (length written),
                                      owned = True, subtype = 0\<rparr>
                    in (case buffer_to_bson_value env plaintext
                                (original_bson_type ciphertext) of
                          None \<Rightarrow> (False, out, CLIENT_ERR ''malformed encrypted bson'')
                        | Some v \<Rightarrow> (True, v, st)))))"

text \<open>
  \<^verbatim>\<open>_finalize\<close> of the decrypt contexts. The context is reached through its own
  function table, so it is never NULL; \<open>outp\<close> is \<open>None\<close> for a NULL \<^verbatim>\<open>out\<close> and
  comes back holding the decrypted document on success.
\<close>

definition decrypt_finalize ::
  "('kb, 'cache) collaborators \<Rightarrow> uninitialised \<Rightarrow> 'kb mongocrypt_ctx_decrypt
     \<Rightarrow> document_buffer option
     \<Rightarrow> bool \<times> 'kb mongocrypt_ctx_decrypt \<times> document_buffer option" where
  "decrypt_finalize env locals ctx outp =
     (case outp of
        None \<Rightarrow>
          (case ctx_fail_w_msg ctx ''null out parameter'' of (r, c) \<Rightarrow> (r, c, outp))
      | Some _ \<Rightarrow>
          let done = (\<lambda>c final_bson.
                 (True,
                  c\<lparr>decrypted_doc := Some final_bson, state := MONGOCRYPT_CTX_DONE\<rparr>,
                  Some (Some final_bson)))
          in if \<not> dctx_explicit ctx then
               (let as_bson = buffer_to_bson (original_doc ctx) (as_bson0 locals)
                in case transform_binary_in_bson env (replace_ciphertext_with_plaintext env)
                          (kb ctx) TRAVERSE_MATCH_CIPHERTEXT as_bson (status ctx) of
                     (res, final_bson, st) \<Rightarrow>
                       if \<not> res
                       then (case ctx_fail (ctx\<lparr>status := st\<rparr>) of (r, c) \<Rightarrow> (r, c, outp))
                       else done (ctx\<lparr>status := st\<rparr>) final_bson)
             else
               (case replace_ciphertext_with_plaintext env (kb ctx) (unwrapped_doc ctx)
                       (value0 locals) (status ctx) of
                  (res, val, st) \<Rightarrow>
                    if \<not> res
                    then (case ctx_fail (ctx\<lparr>status := st\<rparr>) of (r, c) \<Rightarrow> (r, c, outp))
                    else done (ctx\<lparr>status := st\<rparr>) [(''v'', val)]))"

text \<open>\<^verbatim>\<open>_collect_key_from_ciphertext\<close>.\<close>

definition collect_key_from_ciphertext ::
  "('kb, 'cache) collaborators \<Rightarrow> 'kb traverse_callback" where
  "collect_key_from_ciphertext env kbr inb st =
     (case parse_ciphertext_unowned inb of
        Inl e \<Rightarrow> (False, kbr, e)
      | Inr ciphertext \<Rightarrow>
          (case key_broker_add_id env kbr (key_id ciphertext) of
             (ok, kbr') \<Rightarrow>
               if \<not> ok
               then (case key_broker_status env kbr' st of (r, st') \<Rightarrow> (r, kbr', st'))
               else (True, kbr', st)))"



text \<open>
  \<^verbatim>\<open>mongocrypt_ctx_explicit_decrypt_init\<close>. \<open>msg\<close> is \<open>None\<close> for a NULL message or
  NULL message data.
\<close>

definition mongocrypt_ctx_explicit_decrypt_init ::
  "('kb, 'cache) collaborators \<Rightarrow> uninitialised \<Rightarrow> 'kb mongocrypt_ctx_decrypt
     \<Rightarrow> mongocrypt_binary option \<Rightarrow> bool \<times> 'kb mongocrypt_ctx_decrypt" where
  "mongocrypt_ctx_explicit_decrypt_init env locals ctx0 msg =
     (case on_parent (\<lambda>p. ctx_init env p opts_spec_zero) ctx0 of
        (ok, ctx) \<Rightarrow>
          if \<not> ok then (False, ctx)
          else case msg of
            None \<Rightarrow> ctx_fail_w_msg ctx ''invalid msg''
          | Some m \<Rightarrow>
              let ctx = ctx\<lparr>dctx_explicit := True, ctx_type := MONGOCRYPT_TYPE_DECRYPT\<rparr>;
                  ctx = ctx\<lparr>original_doc := bson_init_static m\<rparr>;
                  as_bson = buffer_to_bson (original_doc ctx) (as_bson0 locals)
              in case bson_iter_init_find as_bson ''v'' of
                   None \<Rightarrow> ctx_fail_w_msg ctx (''invalid msg, must contain 'v'' @ [CHR 0x27])
                 | Some v \<Rightarrow>
                     (case buffer_from_binary_iter v of
                        None \<Rightarrow> ctx_fail_w_msg ctx ''invalid msg, 'v' must contain a binary''
                      | Some b \<Rightarrow>
                          let ctx = ctx\<lparr>unwrapped_doc := b\<rparr>
                          in case collect_key_from_ciphertext env (kb ctx) (unwrapped_doc ctx)
                                    (status ctx) of
                               (ok, kbr', st) \<Rightarrow>
                                 if \<not> ok then ctx_fail (ctx\<lparr>kb := kbr', status := st\<rparr>)
                                 else ctx_state_from_key_broker env
                                        (ctx\<lparr>kb := kbr', status := st\<rparr>)))"

text \<open>\<^verbatim>\<open>mongocrypt_ctx_decrypt_init\<close>.\<close>

definition mongocrypt_ctx_decrypt_init ::
  "('kb, 'cache) collaborators \<Rightarrow> uninitialised \<Rightarrow> 'kb mongocrypt_ctx_decrypt
     \<Rightarrow> mongocrypt_binary option \<Rightarrow> bool \<times> 'kb mongocrypt_ctx_decrypt" where
  "mongocrypt_ctx_decrypt_init env locals ctx0 doc =
     (case on_parent (\<lambda>p. ctx_init env p opts_spec_zero) ctx0 of
        (ok, ctx) \<Rightarrow>
          if \<not> ok then (False, ctx)
          else case doc of
            None \<Rightarrow> ctx_fail_w_msg ctx ''invalid doc''
          | Some m \<Rightarrow>
              let ctx = ctx\<lparr>ctx_type := MONGOCRYPT_TYPE_DECRYPT\<rparr>;
                  ctx = ctx\<lparr>original_doc := bson_init_static m\<rparr>;
                  as_bson = buffer_to_bson (original_doc ctx) (as_bson0 locals)
              in case traverse_binary_in_bson env (collect_key_from_ciphertext env) (kb ctx)
                        TRAVERSE_MATCH_CIPHERTEXT as_bson (status ctx) of
                   (ok, kbr', st) \<Rightarrow>
                     if \<not> ok then ctx_fail (ctx\<lparr>kb := kbr', status := st\<rparr>)
                     else ctx_state_from_key_broker env
                            (ctx\<lparr>kb := kbr', status := st,
                                 state := MONGOCRYPT_CTX_NOTHING_TO_DO\<rparr>))"

section \<open>mongocrypt-ctx-encrypt.c\<close>

text \<open>
  Functions that use the engine's collection-info cache take it and return it, after the
  returned \<^verbatim>\<open>bool\<close>. A \<^verbatim>\<open>char *\<close> is modelled by the characters before its NUL.
  The two \<^verbatim>\<open>_cleanup\<close> functions release memory (the encrypt one also asks the cache
  to drop the pending entries the context owns); they have no counterpart here.
\<close>


text \<open>\<^verbatim>\<open>_set_schema_from_collinfo\<close>.\<close>

definition set_schema_from_collinfo ::
  "'kb mongocrypt_ctx_encrypt \<Rightarrow> bson_t \<Rightarrow> bool \<times> 'kb mongocrypt_ctx_encrypt" where
  "set_schema_from_collinfo ctx collinfo =
     (if (case bson_iter_init_find collinfo ''type'' of
            Some (BSON_UTF8 s) \<Rightarrow> c_str s = ''view''
          | _ \<Rightarrow> False)
      then ctx_fail_w_msg ctx ''cannot auto encrypt a view''
      else if \<not> bson_iter_init collinfo
      then ctx_fail_w_msg ctx ''BSON malformed''
      else case bson_iter_find_descendant collinfo
                  [''options'', ''validator'', ''$jsonSchema''] of
             Some v \<Rightarrow>
               (case buffer_copy_from_document_iter v of
                  None \<Rightarrow> ctx_fail_w_msg ctx ''malformed JSONSchema''
                | Some d \<Rightarrow> (True, ctx\<lparr>schema := Some d\<rparr>))
           | None \<Rightarrow> (True, ctx))"

text \<open>\<^verbatim>\<open>_mongo_feed_collinfo\<close>.\<close>

definition mongo_feed_collinfo ::
  "('kb, 'cache) collaborators \<Rightarrow> 'cache \<Rightarrow> 'kb mongocrypt_ctx_encrypt \<Rightarrow> mongocrypt_binary
     \<Rightarrow> bool \<times> 'cache \<times> 'kb mongocrypt_ctx_encrypt" where
  "mongo_feed_collinfo env cache ctx inb =
     (case bson_init_static inb of
        None \<Rightarrow> (case ctx_fail_w_msg ctx ''BSON malformed'' of (r, c) \<Rightarrow> (r, cache, c))
      | Some as_bson \<Rightarrow>
          (case cache_add_copy env cache (ns ctx) as_bson (ctx_id ctx) (status ctx) of
             (ok, cache', st) \<Rightarrow>
               if \<not> ok
               then (case ctx_fail (ctx\<lparr>status := st\<rparr>) of (r, c) \<Rightarrow> (r, cache', c))
               else (case set_schema_from_collinfo (ctx\<lparr>status := st\<rparr>) as_bson of
                       (ok', c) \<Rightarrow> if \<not> ok' then (False, cache', c) else (True, cache', c))))"

text \<open>\<^verbatim>\<open>_mongo_done_collinfo\<close>.\<close>

definition mongo_done_collinfo ::
  "'kb mongocrypt_ctx_encrypt \<Rightarrow> bool \<times> 'kb mongocrypt_ctx_encrypt" where
  "mongo_done_collinfo ctx =
     (if document_buffer_empty (schema ctx)
      then (True, ctx\<lparr>state := MONGOCRYPT_CTX_NOTHING_TO_DO\<rparr>)
      else (True, ctx\<lparr>state := MONGOCRYPT_CTX_NEED_MONGO_MARKINGS\<rparr>))"


text \<open>\<^verbatim>\<open>_collect_key_from_marking\<close>.\<close>

definition collect_key_from_marking ::
  "('kb, 'cache) collaborators \<Rightarrow> 'kb traverse_callback" where
  "collect_key_from_marking env kbr inb st =
     (case marking_parse_unowned env inb of
        Inl e \<Rightarrow> (False, kbr, e)
      | Inr marking \<Rightarrow>
          (case (if has_alt_name marking
                 then key_broker_add_name env kbr (marking_key_alt_name marking)
                 else key_broker_add_id env kbr (marking_key_id marking)) of
             (res, kbr') \<Rightarrow>
               if \<not> res then (False, kbr', snd (key_broker_status env kbr' st))
               else (True, kbr', st)))"

text \<open>\<^verbatim>\<open>_mongo_feed_markings\<close>.\<close>

definition mongo_feed_markings ::
  "('kb, 'cache) collaborators \<Rightarrow> 'kb mongocrypt_ctx_encrypt \<Rightarrow> mongocrypt_binary
     \<Rightarrow> bool \<times> 'kb mongocrypt_ctx_encrypt" where
  "mongo_feed_markings env ctx inb =
     (case bson_init_static inb of
        None \<Rightarrow> ctx_fail_w_msg ctx ''malformed BSON''
      | Some as_bson \<Rightarrow>
          if (case bson_iter_init_find as_bson ''schemaRequiresEncryption'' of
                Some v \<Rightarrow> \<not> bson_iter_as_bool v | None \<Rightarrow> False)
          then (True, ctx)
          else if (case bson_iter_init_find as_bson ''hasEncryptedPlaceholders'' of
                     Some v \<Rightarrow> \<not> bson_iter_as_bool v | None \<Rightarrow> False)
          then (True, ctx)
          else case bson_iter_init_find as_bson ''result'' of
                 None \<Rightarrow> ctx_fail_w_msg ctx (''malformed marking, no 'result'' @ [CHR 0x27])
               | Some v \<Rightarrow>
                   (case buffer_copy_from_document_iter v of
                      None \<Rightarrow>
                        ctx_fail_w_msg ctx ''malformed marking, 'result' must be a document''
                    | Some d \<Rightarrow>
                        let ctx = ctx\<lparr>marked_cmd := Some d\<rparr>
                        in case traverse_binary_in_bson env (collect_key_from_marking env)
                                  (kb ctx) TRAVERSE_MATCH_MARKING d (status ctx) of
                             (ok, kbr', st) \<Rightarrow>
                               if \<not> ok then ctx_fail (ctx\<lparr>kb := kbr', status := st\<rparr>)
                               else (True, ctx\<lparr>kb := kbr', status := st\<rparr>)))"




text \<open>
  \<^verbatim>\<open>_mongocrypt_marking_init\<close> (the zeroed marking) and \<^verbatim>\<open>_mongocrypt_buffer_set_to\<close>
  (an unowned view of the source buffer).
\<close>

definition marking_init :: mongocrypt_marking where
  "marking_init = \<lparr>v_iter = None, marking_algorithm = MONGOCRYPT_ENCRYPTION_ALGORITHM_NONE,
     marking_iv = buffer_init, marking_key_id = buffer_init, has_alt_name = False,
     marking_key_alt_name = BSON_OTHER 0 []\<rparr>"



text \<open>
  \<^verbatim>\<open>_try_collinfo_from_cache\<close>. The cache hands back the cached reply, the state of the
  entry and its owner. \<open>None\<close> is the abort of the BSON library's assertion on a NULL
  document, reached when the entry is done and carries no reply.
\<close>

definition try_collinfo_from_cache ::
  "('kb, 'cache) collaborators \<Rightarrow> 'cache \<Rightarrow> 'kb mongocrypt_ctx_encrypt
     \<Rightarrow> (bool \<times> 'cache \<times> 'kb mongocrypt_ctx_encrypt) option" where
  "try_collinfo_from_cache env cache ctx0 =
     (let ctx = ctx0\<lparr>collinfo_owner := 0, collinfo_state := CACHE_PAIR_PENDING,
                     waiting_for_collinfo := False\<rparr>
      in case cache_get_or_create env cache (ns ctx) (ctx_id ctx) of
           (cache', collinfo, cstate, owner) \<Rightarrow>
             let ctx = ctx\<lparr>collinfo_state := cstate, collinfo_owner := owner\<rparr>
             in if collinfo_state ctx = CACHE_PAIR_DONE then
                  (case collinfo of
                     None \<Rightarrow> None
                   | Some d \<Rightarrow>
                       (case set_schema_from_collinfo ctx d of
                          (ok, c) \<Rightarrow>
                            if \<not> ok
                            then (case ctx_fail c of (r, c') \<Rightarrow> Some (r, cache', c'))
                            else Some (True, cache',
                                       c\<lparr>state := MONGOCRYPT_CTX_NEED_MONGO_MARKINGS\<rparr>)))
                else if collinfo_owner ctx = ctx_id ctx then
                  Some (True, cache', ctx\<lparr>state := MONGOCRYPT_CTX_NEED_MONGO_COLLINFO\<rparr>)
                else
                  Some (True, cache',
                        ctx\<lparr>waiting_for_collinfo := True, state := MONGOCRYPT_CTX_WAITING\<rparr>))"


text \<open>\<^verbatim>\<open>_next_dependent_ctx_id\<close> of the encrypt contexts.\<close>

definition encrypt_next_dependent_ctx_id ::
  "('kb, 'cache) collaborators \<Rightarrow> 'kb mongocrypt_ctx_encrypt
     \<Rightarrow> u32 \<times> 'kb mongocrypt_ctx_encrypt" where
  "encrypt_next_dependent_ctx_id env ctx =
     (if waiting_for_collinfo ctx then
        (let tmp = collinfo_owner ctx;
             ctx = ctx\<lparr>collinfo_owner := 0\<rparr>
         in (tmp, ctx))
      else
        (case key_broker_next_ctx_id env (kb ctx) of (i, kbr') \<Rightarrow> (i, ctx\<lparr>kb := kbr'\<rparr>)))"

text \<open>
  \<^verbatim>\<open>mongocrypt_ctx_explicit_encrypt_init\<close>. \<open>msg\<close> is \<open>None\<close> for a NULL message or NULL
  message data.
\<close>

definition mongocrypt_ctx_explicit_encrypt_init ::
  "('kb, 'cache) collaborators \<Rightarrow> 'kb mongocrypt_ctx_encrypt \<Rightarrow> mongocrypt_binary option
     \<Rightarrow> bool \<times> 'kb mongocrypt_ctx_encrypt" where
  "mongocrypt_ctx_explicit_encrypt_init env ctx0 msg =
     (let opts_spec = opts_spec_zero\<lparr>spec_key_descriptor := OPT_REQUIRED,
                                      spec_algorithm := OPT_REQUIRED,
                                      spec_iv := OPT_OPTIONAL\<rparr>
      in case on_parent (\<lambda>p. ctx_init env p opts_spec) ctx0 of
        (ok, ctx) \<Rightarrow>
          if \<not> ok then (False, ctx)
          else
            let ctx = ctx\<lparr>ctx_type := MONGOCRYPT_TYPE_ENCRYPT, ectx_explicit := True\<rparr>
            in case msg of
              None \<Rightarrow> ctx_fail_w_msg ctx ''msg required for explicit encryption''
            | Some m \<Rightarrow>
                (case (case opts_key_alt_name (opts ctx) of
                         Some name \<Rightarrow> key_broker_add_name env (kb ctx) name
                       | None \<Rightarrow> key_broker_add_id env (kb ctx) (opts_key_id (opts ctx))) of
                   (added, kbr') \<Rightarrow>
                     if \<not> added then ctx_fail (ctx\<lparr>kb := kbr'\<rparr>)
                     else
                       let ctx = ctx\<lparr>kb := kbr', original_cmd := bson_init_static m\<rparr>
                       in case original_cmd ctx of
                            None \<Rightarrow> ctx_fail_w_msg ctx ''msg must be bson''
                          | Some as_bson \<Rightarrow>
                              (case bson_iter_init_find as_bson ''v'' of
                                 None \<Rightarrow>
                                   ctx_fail_w_msg ctx
                                     (''invalid msg, must contain 'v'' @ [CHR 0x27])
                               | Some _ \<Rightarrow> ctx_state_from_key_broker env ctx)))"

text \<open>
  \<^verbatim>\<open>mongocrypt_ctx_encrypt_init\<close>. \<open>None\<close> for the namespace is a NULL pointer. The
  collection name points behind the first dot of the copied namespace.
\<close>

definition mongocrypt_ctx_encrypt_init ::
  "('kb, 'cache) collaborators \<Rightarrow> 'cache \<Rightarrow> 'kb mongocrypt_ctx_encrypt \<Rightarrow> string option
     \<Rightarrow> int \<Rightarrow> (bool \<times> 'cache \<times> 'kb mongocrypt_ctx_encrypt) option" where
  "mongocrypt_ctx_encrypt_init env cache ctx0 nsp ns_len =
     (let opts_spec = opts_spec_zero\<lparr>spec_schema := OPT_OPTIONAL\<rparr>;
          failed = (\<lambda>c msg. case ctx_fail_w_msg c msg of (r, c') \<Rightarrow> Some (r, cache, c'))
      in case on_parent (\<lambda>p. ctx_init env p opts_spec) ctx0 of
        (ok, ctx) \<Rightarrow>
          if \<not> ok then Some (False, cache, ctx)
          else
            let ctx = ctx\<lparr>ctx_type := MONGOCRYPT_TYPE_ENCRYPT, ectx_explicit := False\<rparr>
            in case nsp of
              None \<Rightarrow> failed ctx ''invalid ns. Must be <db>.<coll>''
            | Some nstr \<Rightarrow>
                if CHR ''.'' \<notin> set nstr
                then failed ctx ''invalid ns. Must be <db>.<coll>''
                else if masterkey_aws_region (opts ctx) \<noteq> None
                        \<or> masterkey_aws_cmk (opts ctx) \<noteq> None
                then failed ctx ''aws masterkey options must not be set''
                else if \<not> buffer_empty (opts_key_id (opts ctx))
                then failed ctx ''key_id must not be set for auto encryption''
                else if algorithm (opts ctx) \<noteq> MONGOCRYPT_ENCRYPTION_ALGORITHM_NONE
                then failed ctx ''algorithm must not be set for auto encryption''
                else if \<not> buffer_empty (opts_iv (opts ctx))
                then failed ctx ''iv must not be set for auto encryption''
                else case validate_and_copy_string env nstr ns_len of
                  None \<Rightarrow> failed ctx ''invalid ns''
                | Some copied \<Rightarrow>
                    let ctx = ctx\<lparr>ns := Some copied,
                                   coll_name :=
                                     (case dropWhile (\<lambda>c. c \<noteq> CHR ''.'') copied of
                                        [] \<Rightarrow> None | _ # r \<Rightarrow> Some r)\<rparr>
                    in if \<not> document_buffer_empty (local_schema (opts ctx))
                       then Some (True, cache,
                              ctx\<lparr>schema := local_schema (opts ctx),
                                  opts := (opts ctx)\<lparr>local_schema := None\<rparr>,
                                  state := MONGOCRYPT_CTX_NEED_MONGO_MARKINGS\<rparr>)
                       else try_collinfo_from_cache env cache ctx)"

section \<open>The order of the states and the caller's protocol\<close>










section \<open>The traversal engine and the cache, from the spec\<close>

text \<open>
  Modelled from the spec: the traversal engine (\<^verbatim>\<open>_mongocrypt_traverse_binary_in_bson\<close>
  and \<^verbatim>\<open>_mongocrypt_transform_binary_in_bson\<close>), defined outside these files. Section
  4.1: "walk every value in the document tree. For any binary-typed value of subtype 6
  whose first content byte selects the match discriminator, invoke the callback with a
  borrowed view of the payload (excluding the discriminator byte in the case of marking;
  including the full envelope in the case of ciphertext ...). For embedded documents and
  arrays, recurse. Non-matching values pass through unchanged." Visit mode: "traversal
  short-circuits on failure, propagating the status." Transform mode: "Callback returns a
  replacement value ... Engine constructs a new document preserving field order and
  names". Section 4.4 on a callback that succeeds without a replacement: "if a key is
  missing from the broker, the ciphertext is left in place and decryption continues";
  so the replacement handed to the callback starts out as the value itself. Which first
  byte selects which discriminator is not stated: it is the parameter \<open>sel\<close>.
\<close>

definition traversal_view :: "traversal_match \<Rightarrow> bytes \<Rightarrow> mongocrypt_buffer" where
  "traversal_view m payload =
     (let bs = (case m of TRAVERSE_MATCH_MARKING \<Rightarrow> tl payload
                        | TRAVERSE_MATCH_CIPHERTEXT \<Rightarrow> payload)
      in \<lparr>data = bs, len = of_nat (length bs), owned = False, subtype = 6\<rparr>)"

text \<open>
  Modelled from the spec: which values the engine hands to the callback (4.1: "any
  binary-typed value of subtype 6 whose first content byte selects the match
  discriminator").
\<close>

definition traversal_candidate ::
  "(traversal_match \<Rightarrow> u8 \<Rightarrow> bool) \<Rightarrow> traversal_match \<Rightarrow> u8 \<Rightarrow> bytes \<Rightarrow> bool" where
  "traversal_candidate sel m sub payload =
     (sub = 6 \<and> (case payload of [] \<Rightarrow> False | b # _ \<Rightarrow> sel m b))"

text \<open>
  Modelled from the spec: the transform mode of the engine (4.1 and 4.4, as quoted
  above). On a failure the builder holds the fields written so far.
\<close>

fun spec_transform_fields ::
  "(traversal_match \<Rightarrow> u8 \<Rightarrow> bool) \<Rightarrow> 'c transform_callback \<Rightarrow> 'c \<Rightarrow> traversal_match
     \<Rightarrow> bson_t \<Rightarrow> mongocrypt_status \<Rightarrow> bool \<times> bson_t \<times> mongocrypt_status"
and spec_transform_value ::
  "(traversal_match \<Rightarrow> u8 \<Rightarrow> bool) \<Rightarrow> 'c transform_callback \<Rightarrow> 'c \<Rightarrow> traversal_match
     \<Rightarrow> bson_value \<Rightarrow> mongocrypt_status \<Rightarrow> bool \<times> bson_value \<times> mongocrypt_status"
where
  "spec_transform_fields sel cb c m [] st = (True, [], st)"
| "spec_transform_fields sel cb c m ((k, v) # rest) st =
     (case spec_transform_value sel cb c m v st of
        (ok, v', st') \<Rightarrow>
          if \<not> ok then (False, [], st')
          else (case spec_transform_fields sel cb c m rest st' of
                  (ok', rest', st'') \<Rightarrow> (ok', (k, v') # rest', st'')))"
| "spec_transform_value sel cb c m (BSON_DOCUMENT fs) st =
     (case spec_transform_fields sel cb c m fs st of
        (ok, fs', st') \<Rightarrow> (ok, BSON_DOCUMENT fs', st'))"
| "spec_transform_value sel cb c m (BSON_ARRAY fs) st =
     (case spec_transform_fields sel cb c m fs st of
        (ok, fs', st') \<Rightarrow> (ok, BSON_ARRAY fs', st'))"
| "spec_transform_value sel cb c m (BSON_BINARY sub payload) st =
     (if traversal_candidate sel m sub payload
      then cb c (traversal_view m payload) (BSON_BINARY sub payload) st
      else (True, BSON_BINARY sub payload, st))"
| "spec_transform_value sel cb c m v st = (True, v, st)"

text \<open>
  Modelled from the spec: the visit mode of the engine (4.1: "Callback returns
  success/failure; traversal short-circuits on failure, propagating the status").
\<close>

fun spec_traverse_fields ::
  "(traversal_match \<Rightarrow> u8 \<Rightarrow> bool) \<Rightarrow> 'c traverse_callback \<Rightarrow> 'c \<Rightarrow> traversal_match
     \<Rightarrow> bson_t \<Rightarrow> mongocrypt_status \<Rightarrow> bool \<times> 'c \<times> mongocrypt_status"
and spec_traverse_value ::
  "(traversal_match \<Rightarrow> u8 \<Rightarrow> bool) \<Rightarrow> 'c traverse_callback \<Rightarrow> 'c \<Rightarrow> traversal_match
     \<Rightarrow> bson_value \<Rightarrow> mongocrypt_status \<Rightarrow> bool \<times> 'c \<times> mongocrypt_status"
where
  "spec_traverse_fields sel cb c m [] st = (True, c, st)"
| "spec_traverse_fields sel cb c m ((k, v) # rest) st =
     (case spec_traverse_value sel cb c m v st of
        (ok, c', st') \<Rightarrow>
          if \<not> ok then (False, c', st')
          else spec_traverse_fields sel cb c' m rest st')"
| "spec_traverse_value sel cb c m (BSON_DOCUMENT fs) st = spec_traverse_fields sel cb c m fs st"
| "spec_traverse_value sel cb c m (BSON_ARRAY fs) st = spec_traverse_fields sel cb c m fs st"
| "spec_traverse_value sel cb c m (BSON_BINARY sub payload) st =
     (if traversal_candidate sel m sub payload
      then cb c (traversal_view m payload) st
      else (True, c, st))"
| "spec_traverse_value sel cb c m v st = (True, c, st)"




text \<open>
  Modelled from the spec: the namespace cache (\<^verbatim>\<open>_mongocrypt_cache_get_or_create\<close>,
  \<^verbatim>\<open>_mongocrypt_cache_add_copy\<close>, \<^verbatim>\<open>_mongocrypt_cache_wait\<close>), defined outside these
  files. Section 3: a cache entry has a key, a value, a state pending or done, and an
  owner; section 4.3: "A missing entry with this context as owner drives the state
  machine into NEED_MONGO_COLLINFO; a present pending entry owned elsewhere drives it to
  WAITING; a present done entry advances directly"; section 4.4: "the reply is cached
  under the namespace"; section 8: "zero owner slots when state=done".
\<close>

record cache_pair =
  pair_value :: "bson_t option"
  pair_state :: mongocrypt_cache_pair_state
  pair_owner :: u32

type_synonym spec_cache = "string option \<rightharpoonup> cache_pair"

text \<open>
  Modelled from the spec: \<^verbatim>\<open>_mongocrypt_cache_get_or_create\<close> (4.3): a missing entry
  is created pending with the caller as owner; a present entry is reported as it is.
\<close>

definition spec_cache_get_or_create ::
  "spec_cache \<Rightarrow> string option \<Rightarrow> u32
     \<Rightarrow> spec_cache \<times> bson_t option \<times> mongocrypt_cache_pair_state \<times> u32" where
  "spec_cache_get_or_create cache key owner_id =
     (case cache key of
        None \<Rightarrow>
          (cache(key \<mapsto> \<lparr>pair_value = None, pair_state = CACHE_PAIR_PENDING,
                          pair_owner = owner_id\<rparr>),
           None, CACHE_PAIR_PENDING, owner_id)
      | Some p \<Rightarrow> (cache, pair_value p, pair_state p, pair_owner p))"

text \<open>
  Modelled from the spec: \<^verbatim>\<open>_mongocrypt_cache_add_copy\<close> (4.4, 8): the entry of the key
  becomes done, holds a copy of the value and has no owner.
\<close>

definition spec_cache_add_copy ::
  "spec_cache \<Rightarrow> string option \<Rightarrow> bson_t \<Rightarrow> u32 \<Rightarrow> mongocrypt_status
     \<Rightarrow> bool \<times> spec_cache \<times> mongocrypt_status" where
  "spec_cache_add_copy cache key v owner_id st =
     (True,
      cache(key \<mapsto> \<lparr>pair_value = Some v, pair_state = CACHE_PAIR_DONE, pair_owner = 0\<rparr>),
      st)"

text \<open>
  Modelled from the spec: \<^verbatim>\<open>_mongocrypt_cache_wait\<close> (5: "sleep on the cache's condition
  until any state change"); in a sequential model the wait returns at once.
\<close>

definition spec_cache_wait ::
  "spec_cache \<Rightarrow> mongocrypt_status \<Rightarrow> bool \<times> spec_cache \<times> mongocrypt_status" where
  "spec_cache_wait cache st = (True, cache, st)"

section \<open>Example inputs\<close>

text \<open>A 19-byte blob of subtype 1 with a one-byte payload, and the same with subtype 3.\<close>

definition example_blob :: mongocrypt_buffer where
  "example_blob = \<lparr>data = [1, 0xA0, 0xA1, 0xA2, 0xA3, 0xA4, 0xA5, 0xA6, 0xA7, 0xA8, 0xA9,
       0xAA, 0xAB, 0xAC, 0xAD, 0xAE, 0xAF, 2, 0x2A], len = 19, owned = False, subtype = 6\<rparr>"

definition example_blob_subtype3 :: mongocrypt_buffer where
  "example_blob_subtype3 = example_blob\<lparr>data := (data example_blob)[0 := 3]\<rparr>"


definition example_key :: bytes where
  "example_key = [0xA0, 0xA1, 0xA2, 0xA3, 0xA4, 0xA5, 0xA6, 0xA7, 0xA8, 0xA9,
       0xAA, 0xAB, 0xAC, 0xAD, 0xAE, 0xAF]"


text \<open>
  A small key broker for the examples: the identifiers added so far, each with its
  decrypted material once it has some. The crypto and marking codecs of the examples
  are placeholders: decryption returns the payload, a marking is its key identifier.
\<close>

type_synonym example_broker = "(bytes \<times> bytes option) list"

definition example_sel :: "traversal_match \<Rightarrow> u8 \<Rightarrow> bool" where
  "example_sel m b = (case m of TRAVERSE_MATCH_CIPHERTEXT \<Rightarrow> b = 1 \<or> b = 2
                              | TRAVERSE_MATCH_MARKING \<Rightarrow> b = 0)"

definition example_env :: "(example_broker, spec_cache) collaborators" where
  "example_env = \<lparr>
     key_broker_decrypted_key_by_id = (\<lambda>kbr b.
        case map_of kbr (data b) of
          Some (Some material) \<Rightarrow>
            Some \<lparr>data = material, len = of_nat (length material), owned = False,
                  subtype = 0\<rparr>
        | _ \<Rightarrow> None),
     key_broker_add_id = (\<lambda>kbr b.
        (True, if data b \<in> fst ` set kbr then kbr else kbr @ [(data b, None)])),
     key_broker_add_name = (\<lambda>kbr name. (True, kbr)),
     key_broker_status = (\<lambda>kbr st. (True, st)),
     key_broker_check_cache_and_wait = (\<lambda>kbr block. (True, kbr)),
     key_broker_next_ctx_id = (\<lambda>kbr. (7, kbr)),
     key_broker_readiness = (\<lambda>kbr.
        if list_all (\<lambda>e. snd e \<noteq> None) kbr then KB_READY else KB_NEED_MONGO_KEYS),
     do_decryption = (\<lambda>key_material ciphertext. Inr (data ciphertext)),
     buffer_to_bson_value = (\<lambda>plaintext t. Some (BSON_OTHER t (data plaintext))),
     marking_parse_unowned = (\<lambda>b. Inr (marking_init\<lparr>marking_key_id := b\<rparr>)),
     marking_to_ciphertext = (\<lambda>kbr marking.
        Inr \<lparr>blob_subtype = 1, key_id = marking_key_id marking, original_bson_type = 2,
             ciphertext_data = buffer_init\<rparr>),
     serialize_ciphertext = (\<lambda>c. key_id c),
     traverse_binary_in_bson = spec_traverse_fields example_sel,
     transform_binary_in_bson = spec_transform_fields example_sel,
     cache_get_or_create = spec_cache_get_or_create,
     cache_add_copy = spec_cache_add_copy,
     cache_wait = spec_cache_wait,
     validate_and_copy_string = (\<lambda>s n. if n = - 1 then Some s else None),
     ctx_init = (\<lambda>p spec.
        if initialized p then ctx_fail_w_msg p ''cannot double initialize''
        else (True, p\<lparr>initialized := True\<rparr>))\<rparr>"

definition example_opts :: mongocrypt_ctx_opts where
  "example_opts = \<lparr>masterkey_kms_provider = 0, masterkey_aws_cmk = None,
     masterkey_aws_cmk_len = 0, masterkey_aws_region = None, masterkey_aws_region_len = 0,
     local_schema = None, opts_key_id = buffer_init, opts_key_alt_name = None,
     opts_iv = buffer_init, algorithm = MONGOCRYPT_ENCRYPTION_ALGORITHM_NONE\<rparr>"


text \<open>
  An automatic-encrypt context with id 2 on the namespace db.c, as it is while it waits
  for context 1 to fetch the collection info.
\<close>

definition example_ectx :: "example_broker mongocrypt_ctx_encrypt" where
  "example_ectx = \<lparr>state = MONGOCRYPT_CTX_WAITING, ctx_type = MONGOCRYPT_TYPE_ENCRYPT,
     status = Status_ok, kb = [], opts = example_opts, ctx_id = 2, initialized = True,
     cache_noblock = True, ectx_explicit = False, ns = Some ''db.c'', coll_name = Some ''c'',
     waiting_for_collinfo = True, collinfo_state = CACHE_PAIR_PENDING, collinfo_owner = 1,
     list_collections_filter = None, schema = None, original_cmd = None,
     marking_cmd = None, marked_cmd = None, encrypted_cmd = None, ectx_iv = buffer_init,
     ectx_key_id = buffer_init\<rparr>"

text \<open>The same context before initialisation.\<close>

definition example_ectx_new :: "example_broker mongocrypt_ctx_encrypt" where
  "example_ectx_new = example_ectx\<lparr>state := MONGOCRYPT_CTX_DONE,
     ctx_type := MONGOCRYPT_TYPE_NONE, initialized := False, ns := None, coll_name := None,
     waiting_for_collinfo := False, collinfo_owner := 0\<rparr>"

text \<open>
  The context in NEED_MONGO_MARKINGS, and replies to the marking query: one that
  announces that no encryption is needed, one without a result, and one whose result
  holds a marking for the first key.
\<close>

definition example_ectx_markings :: "example_broker mongocrypt_ctx_encrypt" where
  "example_ectx_markings = example_ectx\<lparr>state := MONGOCRYPT_CTX_NEED_MONGO_MARKINGS,
     waiting_for_collinfo := False, collinfo_owner := 0,
     schema := Some [(''bsonType'', BSON_UTF8 ''object'')]\<rparr>"

definition example_markings_noop :: bson_t where
  "example_markings_noop = [(''schemaRequiresEncryption'', BSON_BOOL False)]"

definition example_markings_no_result :: bson_t where
  "example_markings_no_result = [(''ok'', BSON_INT32 1)]"

definition example_marked_cmd :: bson_t where
  "example_marked_cmd = [(''find'', BSON_UTF8 ''c''),
                         (''filter'', BSON_DOCUMENT
                            [(''ssn'', BSON_BINARY 6 (0 # example_key))])]"

definition example_markings_result :: bson_t where
  "example_markings_result = [(''hasEncryptedPlaceholders'', BSON_BOOL True),
                              (''result'', BSON_DOCUMENT example_marked_cmd)]"

text \<open>Another context on the same namespace, about to consult the cache.\<close>

definition example_ectx_other :: "example_broker mongocrypt_ctx_encrypt" where
  "example_ectx_other = example_ectx_new\<lparr>ctx_id := 5, initialized := True, ns := Some ''db.c'',
      coll_name := Some ''c''\<rparr>"

text \<open>
  Replies to listCollections: a collection without a validator, a view, and a
  collection with a schema.
\<close>

definition example_collinfo_plain :: bson_t where
  "example_collinfo_plain = [(''name'', BSON_UTF8 ''c''), (''type'', BSON_UTF8 ''collection'')]"

definition example_collinfo_view :: bson_t where
  "example_collinfo_view = [(''name'', BSON_UTF8 ''c''), (''type'', BSON_UTF8 ''view'')]"

definition example_collinfo_schema :: bson_t where
  "example_collinfo_schema =
     [(''name'', BSON_UTF8 ''c''),
      (''options'', BSON_DOCUMENT
         [(''validator'', BSON_DOCUMENT
             [(''$jsonSchema'', BSON_DOCUMENT [(''bsonType'', BSON_UTF8 ''object'')])])])]"

definition example_cache_done :: "bson_t \<Rightarrow> spec_cache" where
  "example_cache_done reply =
     [Some ''db.c'' \<mapsto> \<lparr>pair_value = Some reply, pair_state = CACHE_PAIR_DONE,
                          pair_owner = 0\<rparr>]"



section \<open>The ciphertext parser\<close>

lemma parse_ciphertext_unowned_Inr_iff:
  "(\<exists>c. parse_ciphertext_unowned b = Inr c) \<longleftrightarrow>
   (19 \<le> len b \<and> (data b ! 0 = 1 \<or> data b ! 0 = 2))"
  by (auto simp: parse_ciphertext_unowned_def Let_def not_less)

lemma unat_len_minus_18:
  fixes n :: u32
  assumes "19 \<le> n"
  shows "unat (n - 18) = unat n - 18"
proof -
  have "(18 :: u32) \<le> n" using assms by (simp add: word_le_nat_alt)
  then show ?thesis by (simp add: unat_sub)
qed

text \<open>
  C1. For every (well-formed) input buffer the ciphertext parser succeeds exactly when the
  buffer holds at least 19 bytes and its first byte is 1 or 2. On success the first byte is
  the blob subtype, bytes 1..16 are the key UUID (a 16-byte view tagged as a UUID), byte 17
  is the original BSON type and the remaining bytes, at least one, are the payload. On
  failure the status is one of the two "malformed ciphertext" client errors.
\<close>

theorem parse_ciphertext_unowned_spec:
  assumes wf: "buffer_wf b"
  shows "((\<exists>c. parse_ciphertext_unowned b = Inr c) \<longleftrightarrow>
            (19 \<le> length (data b) \<and> (data b ! 0 = 1 \<or> data b ! 0 = 2)))
       \<and> (\<forall>c. parse_ciphertext_unowned b = Inr c \<longrightarrow>
            blob_subtype c = data b ! 0
          \<and> data (key_id c) = map (\<lambda>i. data b ! i) [1 ..< 17]
          \<and> len (key_id c) = 16 \<and> length (data (key_id c)) = 16
          \<and> subtype (key_id c) = BSON_SUBTYPE_UUID
          \<and> original_bson_type c = data b ! 17
          \<and> data (ciphertext_data c) = drop 18 (data b)
          \<and> unat (len (ciphertext_data c)) = length (data b) - 18
          \<and> 1 \<le> length (data (ciphertext_data c))
          \<and> buffer_wf (key_id c) \<and> buffer_wf (ciphertext_data c))
       \<and> (\<forall>e. parse_ciphertext_unowned b = Inl e \<longrightarrow>
            (length (data b) < 19 \<and> e = CLIENT_ERR ''malformed ciphertext, too small'')
          \<or> (19 \<le> length (data b) \<and> data b ! 0 \<noteq> 1 \<and> data b ! 0 \<noteq> 2
             \<and> e = CLIENT_ERR ''malformed ciphertext, expected blob subtype of 1 or 2''))"
proof -
  have len_eq: "length (data b) = unat (len b)"
    using wf by (simp add: buffer_wf_def)
  have le_iff: "19 \<le> len b \<longleftrightarrow> 19 \<le> length (data b)"
    by (simp add: len_eq word_le_nat_alt)
  have lt_iff: "len b < 19 \<longleftrightarrow> length (data b) < 19"
    by (simp add: len_eq word_less_nat_alt)
  have A: "(\<exists>c. parse_ciphertext_unowned b = Inr c) \<longleftrightarrow>
            (19 \<le> length (data b) \<and> (data b ! 0 = 1 \<or> data b ! 0 = 2))"
    using parse_ciphertext_unowned_Inr_iff [of b] le_iff by simp
  have B: "blob_subtype c = data b ! 0
          \<and> data (key_id c) = map (\<lambda>i. data b ! i) [1 ..< 17]
          \<and> len (key_id c) = 16 \<and> length (data (key_id c)) = 16
          \<and> subtype (key_id c) = BSON_SUBTYPE_UUID
          \<and> original_bson_type c = data b ! 17
          \<and> data (ciphertext_data c) = drop 18 (data b)
          \<and> unat (len (ciphertext_data c)) = length (data b) - 18
          \<and> 1 \<le> length (data (ciphertext_data c))
          \<and> buffer_wf (key_id c) \<and> buffer_wf (ciphertext_data c)"
    if ok: "parse_ciphertext_unowned b = Inr c" for c
  proof -
    have big: "19 \<le> len b"
      using parse_ciphertext_unowned_Inr_iff [of b] ok by blast
    then have big': "19 \<le> length (data b)" using le_iff by simp
    have c_eq: "c = \<lparr>blob_subtype = data b ! 0,
        key_id = buffer_init \<lparr>data := take 16 (drop 1 (data b)), len := 16,
                              subtype := BSON_SUBTYPE_UUID\<rparr>,
        original_bson_type = data b ! 17,
        ciphertext_data = buffer_init \<lparr>data := drop 18 (data b), len := len b - 18\<rparr>\<rparr>"
      using ok by (simp add: parse_ciphertext_unowned_def Let_def split: if_splits)
    have view: "take 16 (drop 1 (data b)) = map (\<lambda>i. data b ! i) [1 ..< 17]"
    proof (rule nth_equalityI)
      show "length (take 16 (drop 1 (data b))) = length (map (\<lambda>i. data b ! i) [1 ..< 17])"
        using big' by simp
    next
      fix i assume "i < length (take 16 (drop 1 (data b)))"
      then have i: "i < 16" by simp
      then show "take 16 (drop 1 (data b)) ! i = map (\<lambda>i. data b ! i) [1 ..< 17] ! i"
        using big' by (simp add: nth_append)
    qed
    have ulen: "unat (len b - 18) = length (data b) - 18"
      using unat_len_minus_18 [OF big] len_eq by simp
    show ?thesis
      unfolding c_eq using view ulen big'
      by (simp add: buffer_init_def buffer_wf_def)
  qed
  have C: "(length (data b) < 19 \<and> e = CLIENT_ERR ''malformed ciphertext, too small'')
          \<or> (19 \<le> length (data b) \<and> data b ! 0 \<noteq> 1 \<and> data b ! 0 \<noteq> 2
             \<and> e = CLIENT_ERR ''malformed ciphertext, expected blob subtype of 1 or 2'')"
    if bad: "parse_ciphertext_unowned b = Inl e" for e
    using bad lt_iff
    by (auto simp: parse_ciphertext_unowned_def Let_def not_less split: if_splits)
  from A B C show ?thesis by blast
qed

theorem parse_ciphertext_unowned_spec_witness:
  "buffer_wf example_blob
   \<and> (\<exists>c. parse_ciphertext_unowned example_blob = Inr c \<and> blob_subtype c = 1
          \<and> length (data (key_id c)) = 16 \<and> original_bson_type c = 2
          \<and> data (ciphertext_data c) = [0x2A])
   \<and> buffer_wf example_blob_subtype3
   \<and> parse_ciphertext_unowned example_blob_subtype3
       = Inl (CLIENT_ERR ''malformed ciphertext, expected blob subtype of 1 or 2'')"
proof -
  have wf: "buffer_wf example_blob"
    by (simp add: example_blob_def buffer_wf_def)
  have wf3: "buffer_wf example_blob_subtype3"
    by (simp add: example_blob_subtype3_def example_blob_def buffer_wf_def)
  note ok = parse_ciphertext_unowned_spec [OF wf]
  note bad = parse_ciphertext_unowned_spec [OF wf3]
  from ok have "\<exists>c. parse_ciphertext_unowned example_blob = Inr c"
    by (simp add: example_blob_def)
  then obtain c where c: "parse_ciphertext_unowned example_blob = Inr c" by blast
  with ok have props: "blob_subtype c = 1 \<and> length (data (key_id c)) = 16
      \<and> original_bson_type c = 2 \<and> data (ciphertext_data c) = [0x2A]"
    by (simp add: example_blob_def)
  from bad have no: "\<not> (\<exists>c. parse_ciphertext_unowned example_blob_subtype3 = Inr c)"
    by (simp add: example_blob_subtype3_def example_blob_def)
  then obtain e where e: "parse_ciphertext_unowned example_blob_subtype3 = Inl e"
    by (cases "parse_ciphertext_unowned example_blob_subtype3") auto
  with bad have "e = CLIENT_ERR ''malformed ciphertext, expected blob subtype of 1 or 2''"
    by (simp add: example_blob_subtype3_def example_blob_def)
  with e wf wf3 c props show ?thesis by simp
qed

section \<open>Facts about the example collaborators\<close>

lemma example_env_simps:
  "key_broker_next_ctx_id example_env = (\<lambda>kbr. (7, kbr))"
  "key_broker_status example_env = (\<lambda>kbr st. (True, st))"
  "key_broker_check_cache_and_wait example_env = (\<lambda>kbr block. (True, kbr))"
  "key_broker_add_name example_env = (\<lambda>kbr name. (True, kbr))"
  "do_decryption example_env = (\<lambda>key_material ciphertext. Inr (data ciphertext))"
  "buffer_to_bson_value example_env = (\<lambda>plaintext t. Some (BSON_OTHER t (data plaintext)))"
  "marking_parse_unowned example_env = (\<lambda>b. Inr (marking_init\<lparr>marking_key_id := b\<rparr>))"
  "serialize_ciphertext example_env = key_id"
  "traverse_binary_in_bson example_env = spec_traverse_fields example_sel"
  "transform_binary_in_bson example_env = spec_transform_fields example_sel"
  "cache_get_or_create example_env = spec_cache_get_or_create"
  "cache_add_copy example_env = spec_cache_add_copy"
  "cache_wait example_env = spec_cache_wait"
  "validate_and_copy_string example_env = (\<lambda>s n. if n = - 1 then Some s else None)"
  "key_broker_add_id example_env = (\<lambda>kbr b.
        (True, if data b \<in> fst ` set kbr then kbr else kbr @ [(data b, None)]))"
  "key_broker_decrypted_key_by_id example_env = (\<lambda>kbr b.
        case map_of kbr (data b) of
          Some (Some material) \<Rightarrow>
            Some \<lparr>data = material, len = of_nat (length material), owned = False,
                  subtype = 0\<rparr>
        | _ \<Rightarrow> None)"
  "key_broker_readiness example_env = (\<lambda>kbr.
        if list_all (\<lambda>e. snd e \<noteq> None) kbr then KB_READY else KB_NEED_MONGO_KEYS)"
  "ctx_init example_env = (\<lambda>p spec.
        if initialized p then ctx_fail_w_msg p ''cannot double initialize''
        else (True, p\<lparr>initialized := True\<rparr>))"
  by (simp_all add: example_env_def)

section \<open>The next dependent context\<close>

text \<open>
  C10. On an automatic-encrypt context with \<^verbatim>\<open>waiting_for_collinfo\<close> set,
  \<^verbatim>\<open>_next_dependent_ctx_id\<close> returns the stored collection-info owner and resets the
  stored owner to 0, so that a second call right after it returns 0; when the flag is
  not set the call is the key broker's \<^verbatim>\<open>next_ctx_id\<close>.
\<close>

theorem next_dependent_ctx_id_spec:
  "(waiting_for_collinfo ctx \<longrightarrow>
      encrypt_next_dependent_ctx_id env ctx = (collinfo_owner ctx, ctx\<lparr>collinfo_owner := 0\<rparr>)
    \<and> fst (encrypt_next_dependent_ctx_id env
             (snd (encrypt_next_dependent_ctx_id env ctx))) = 0)
 \<and> (\<not> waiting_for_collinfo ctx \<longrightarrow>
      encrypt_next_dependent_ctx_id env ctx
        = (fst (key_broker_next_ctx_id env (kb ctx)),
           ctx\<lparr>kb := snd (key_broker_next_ctx_id env (kb ctx))\<rparr>))"
  by (simp add: encrypt_next_dependent_ctx_id_def Let_def split: prod.splits)

theorem next_dependent_ctx_id_spec_witness:
  "waiting_for_collinfo example_ectx
   \<and> fst (encrypt_next_dependent_ctx_id example_env example_ectx) = 1
   \<and> fst (encrypt_next_dependent_ctx_id example_env
            (snd (encrypt_next_dependent_ctx_id example_env example_ectx))) = 0
   \<and> \<not> waiting_for_collinfo (example_ectx\<lparr>waiting_for_collinfo := False\<rparr>)
   \<and> fst (encrypt_next_dependent_ctx_id example_env
            (example_ectx\<lparr>waiting_for_collinfo := False\<rparr>)) = 7"
proof -
  have w: "waiting_for_collinfo example_ectx" "collinfo_owner example_ectx = 1"
    by (simp_all add: example_ectx_def)
  from next_dependent_ctx_id_spec [of example_ectx example_env] w(1)
  have a1: "encrypt_next_dependent_ctx_id example_env example_ectx
              = (collinfo_owner example_ectx, example_ectx\<lparr>collinfo_owner := 0\<rparr>)"
   and a2: "fst (encrypt_next_dependent_ctx_id example_env
            (snd (encrypt_next_dependent_ctx_id example_env example_ectx))) = 0"
    by blast+
  from a1 w(2) have a: "fst (encrypt_next_dependent_ctx_id example_env example_ectx) = 1"
    by simp
  from next_dependent_ctx_id_spec
         [of "example_ectx\<lparr>waiting_for_collinfo := False\<rparr>" example_env]
  have b: "fst (encrypt_next_dependent_ctx_id example_env
            (example_ectx\<lparr>waiting_for_collinfo := False\<rparr>)) = 7"
    by (simp add: example_env_simps)
  have c: "\<not> waiting_for_collinfo (example_ectx\<lparr>waiting_for_collinfo := False\<rparr>)"
    by simp
  note w1 = w(1)
  show ?thesis by (intro conjI) (fact w1 a a2 c b)+
qed

section \<open>Views\<close>

lemma set_schema_from_collinfo_view:
  assumes "bson_iter_init_find collinfo ''type'' = Some (BSON_UTF8 s)"
      and "c_str s = ''view''"
  shows "set_schema_from_collinfo ctx collinfo
           = (False, ctx\<lparr>status := CLIENT_ERR ''cannot auto encrypt a view'',
                          state := MONGOCRYPT_CTX_ERROR\<rparr>)"
  using assms by (simp add: set_schema_from_collinfo_def ctx_fail_w_msg_def)

text \<open>
  C5. When the "type" field of the listCollections reply (the first of that name) is a
  string that reads "view", schema extraction fails and leaves the context in ERROR with
  the error "cannot auto encrypt a view": in \<^verbatim>\<open>_set_schema_from_collinfo\<close> itself, in
  \<^verbatim>\<open>_mongo_feed_collinfo\<close> once the reply has been cached, and on a cache hit in
  \<^verbatim>\<open>_try_collinfo_from_cache\<close>.
\<close>

theorem view_is_rejected:
  assumes type: "bson_iter_init_find collinfo ''type'' = Some (BSON_UTF8 s)"
      and view: "c_str s = ''view''"
  shows "set_schema_from_collinfo ctx collinfo
           = (False, ctx\<lparr>status := CLIENT_ERR ''cannot auto encrypt a view'',
                          state := MONGOCRYPT_CTX_ERROR\<rparr>)
       \<and> (\<forall>cache cache' st.
             cache_add_copy env cache (ns ctx) collinfo (ctx_id ctx) (status ctx)
               = (True, cache', st) \<longrightarrow>
             mongo_feed_collinfo env cache ctx (Binary_document collinfo)
               = (False, cache',
                  ctx\<lparr>status := CLIENT_ERR ''cannot auto encrypt a view'',
                      state := MONGOCRYPT_CTX_ERROR\<rparr>))
       \<and> (\<forall>cache cache' owner.
             cache_get_or_create env cache (ns ctx) (ctx_id ctx)
               = (cache', Some collinfo, CACHE_PAIR_DONE, owner) \<longrightarrow>
             (\<exists>ctx'. try_collinfo_from_cache env cache ctx = Some (False, cache', ctx')
                \<and> state ctx' = MONGOCRYPT_CTX_ERROR
                \<and> status ctx' = CLIENT_ERR ''cannot auto encrypt a view''))"
proof (intro conjI allI impI)
  show "set_schema_from_collinfo ctx collinfo
           = (False, ctx\<lparr>status := CLIENT_ERR ''cannot auto encrypt a view'',
                          state := MONGOCRYPT_CTX_ERROR\<rparr>)"
    by (rule set_schema_from_collinfo_view [OF type view])
next
  fix cache cache' st
  assume "cache_add_copy env cache (ns ctx) collinfo (ctx_id ctx) (status ctx)
               = (True, cache', st)"
  then show "mongo_feed_collinfo env cache ctx (Binary_document collinfo)
               = (False, cache',
                  ctx\<lparr>status := CLIENT_ERR ''cannot auto encrypt a view'',
                      state := MONGOCRYPT_CTX_ERROR\<rparr>)"
    by (simp add: mongo_feed_collinfo_def bson_init_static_def
          set_schema_from_collinfo_view [OF type view])
next
  fix cache cache' owner
  assume "cache_get_or_create env cache (ns ctx) (ctx_id ctx)
               = (cache', Some collinfo, CACHE_PAIR_DONE, owner)"
  then show "\<exists>ctx'. try_collinfo_from_cache env cache ctx = Some (False, cache', ctx')
                \<and> state ctx' = MONGOCRYPT_CTX_ERROR
                \<and> status ctx' = CLIENT_ERR ''cannot auto encrypt a view''"
    by (simp add: try_collinfo_from_cache_def Let_def ctx_fail_def
          set_schema_from_collinfo_view [OF type view])
qed

theorem view_is_rejected_witness:
  "bson_iter_init_find example_collinfo_view ''type'' = Some (BSON_UTF8 ''view'')
   \<and> c_str ''view'' = ''view''
   \<and> fst (set_schema_from_collinfo example_ectx example_collinfo_view) = False
   \<and> state (snd (set_schema_from_collinfo example_ectx example_collinfo_view))
       = MONGOCRYPT_CTX_ERROR
   \<and> mongo_feed_collinfo example_env Map.empty
        (example_ectx\<lparr>state := MONGOCRYPT_CTX_NEED_MONGO_COLLINFO\<rparr>)
        (Binary_document example_collinfo_view)
       = (False, example_cache_done example_collinfo_view,
          example_ectx\<lparr>status := CLIENT_ERR ''cannot auto encrypt a view'',
                       state := MONGOCRYPT_CTX_ERROR\<rparr>)"
proof -
  have t: "bson_iter_init_find example_collinfo_view ''type'' = Some (BSON_UTF8 ''view'')"
    by (simp add: example_collinfo_view_def)
  have v: "c_str ''view'' = ''view''" by (simp add: c_str_def)
  note r = view_is_rejected [OF t v, of "example_ectx\<lparr>state := MONGOCRYPT_CTX_NEED_MONGO_COLLINFO\<rparr>" example_env]
  note r2 = view_is_rejected [OF t v, of example_ectx example_env]
  have add: "cache_add_copy example_env Map.empty (ns example_ectx) example_collinfo_view
               (ctx_id example_ectx) (status example_ectx)
             = (True, example_cache_done example_collinfo_view, Status_ok)"
    by (simp add: example_env_simps spec_cache_add_copy_def example_cache_done_def example_ectx_def)
  from r add have feed: "mongo_feed_collinfo example_env Map.empty
        (example_ectx\<lparr>state := MONGOCRYPT_CTX_NEED_MONGO_COLLINFO\<rparr>)
        (Binary_document example_collinfo_view)
       = (False, example_cache_done example_collinfo_view,
          example_ectx\<lparr>status := CLIENT_ERR ''cannot auto encrypt a view'',
                       state := MONGOCRYPT_CTX_ERROR\<rparr>)"
    by simp
  from r2 t v feed show ?thesis by simp
qed

section \<open>The collection-info cache\<close>

text \<open>
  C9. \<^verbatim>\<open>_mongo_feed_collinfo\<close> hands the reply to the cache, under the namespace of the
  context, before it validates it: whatever the validation says, the cache the call
  leaves behind is the one \<^verbatim>\<open>_mongocrypt_cache_add_copy\<close> returned. When the reply names
  a view the context ends in ERROR and the cache still holds the reply.
\<close>

theorem feed_collinfo_caches_before_validating:
  assumes add: "cache_add_copy env cache (ns ctx) reply (ctx_id ctx) (status ctx)
                  = (ok, cache', st)"
  shows "fst (snd (mongo_feed_collinfo env cache ctx (Binary_document reply))) = cache'
       \<and> (ok \<longrightarrow> mongo_feed_collinfo env cache ctx (Binary_document reply)
                    = (fst (set_schema_from_collinfo (ctx\<lparr>status := st\<rparr>) reply), cache',
                       snd (set_schema_from_collinfo (ctx\<lparr>status := st\<rparr>) reply)))
       \<and> (ok \<longrightarrow> (\<forall>s. bson_iter_init_find reply ''type'' = Some (BSON_UTF8 s)
                        \<longrightarrow> c_str s = ''view''
                        \<longrightarrow> mongo_feed_collinfo env cache ctx (Binary_document reply)
                              = (False, cache',
                                 ctx\<lparr>status := CLIENT_ERR ''cannot auto encrypt a view'',
                                     state := MONGOCRYPT_CTX_ERROR\<rparr>)))"
proof (intro conjI impI allI)
  show "fst (snd (mongo_feed_collinfo env cache ctx (Binary_document reply))) = cache'"
    using add
    by (simp add: mongo_feed_collinfo_def bson_init_static_def ctx_fail_def
             split: prod.splits)
next
  assume ok
  with add show "mongo_feed_collinfo env cache ctx (Binary_document reply)
                    = (fst (set_schema_from_collinfo (ctx\<lparr>status := st\<rparr>) reply), cache',
                       snd (set_schema_from_collinfo (ctx\<lparr>status := st\<rparr>) reply))"
    by (simp add: mongo_feed_collinfo_def bson_init_static_def split: prod.splits)
next
  fix s
  assume ok and t: "bson_iter_init_find reply ''type'' = Some (BSON_UTF8 s)"
     and v: "c_str s = ''view''"
  with add show "mongo_feed_collinfo env cache ctx (Binary_document reply)
                              = (False, cache',
                                 ctx\<lparr>status := CLIENT_ERR ''cannot auto encrypt a view'',
                                     state := MONGOCRYPT_CTX_ERROR\<rparr>)"
    by (simp add: mongo_feed_collinfo_def bson_init_static_def
          set_schema_from_collinfo_view [OF t v])
qed

theorem feed_collinfo_caches_before_validating_witness:
  "cache_add_copy example_env Map.empty (ns example_ectx) example_collinfo_view
      (ctx_id example_ectx) (status example_ectx)
     = (True, example_cache_done example_collinfo_view, Status_ok)
   \<and> mongo_feed_collinfo example_env Map.empty example_ectx
        (Binary_document example_collinfo_view)
     = (False, example_cache_done example_collinfo_view,
        example_ectx\<lparr>status := CLIENT_ERR ''cannot auto encrypt a view'',
                     state := MONGOCRYPT_CTX_ERROR\<rparr>)
   \<and> cache_get_or_create example_env (example_cache_done example_collinfo_view)
        (ns example_ectx_other) (ctx_id example_ectx_other)
     = (example_cache_done example_collinfo_view, Some example_collinfo_view,
        CACHE_PAIR_DONE, 0)"
proof -
  have add: "cache_add_copy example_env Map.empty (ns example_ectx) example_collinfo_view
      (ctx_id example_ectx) (status example_ectx)
     = (True, example_cache_done example_collinfo_view, Status_ok)"
    by (simp add: example_env_simps spec_cache_add_copy_def example_cache_done_def
          example_ectx_def)
  have t: "bson_iter_init_find example_collinfo_view ''type'' = Some (BSON_UTF8 ''view'')"
    by (simp add: example_collinfo_view_def)
  have v: "c_str ''view'' = ''view''" by (simp add: c_str_def)
  have same: "example_ectx\<lparr>status := Status_ok\<rparr> = example_ectx"
    by (simp add: example_ectx_def)
  from feed_collinfo_caches_before_validating [OF add] t v
  have feed: "mongo_feed_collinfo example_env Map.empty example_ectx
        (Binary_document example_collinfo_view)
     = (False, example_cache_done example_collinfo_view,
        example_ectx\<lparr>status := CLIENT_ERR ''cannot auto encrypt a view'',
                     state := MONGOCRYPT_CTX_ERROR\<rparr>)"
    by blast
  have seen: "cache_get_or_create example_env (example_cache_done example_collinfo_view)
        (ns example_ectx_other) (ctx_id example_ectx_other)
     = (example_cache_done example_collinfo_view, Some example_collinfo_view,
        CACHE_PAIR_DONE, 0)"
    by (simp add: example_env_simps spec_cache_get_or_create_def example_cache_done_def
          example_ectx_other_def example_ectx_new_def example_ectx_def)
  show ?thesis by (intro conjI) (fact add feed seen)+
qed

section \<open>Feeding the reply to the marking query\<close>

lemma collect_key_from_marking_parsed:
  assumes "marking_parse_unowned env b = Inr mk"
  shows "collect_key_from_marking env kbr b st =
           (let a = (if has_alt_name mk
                     then key_broker_add_name env kbr (marking_key_alt_name mk)
                     else key_broker_add_id env kbr (marking_key_id mk))
            in (fst a, snd a, if fst a then st else snd (key_broker_status env (snd a) st)))"
  using assms by (simp add: collect_key_from_marking_def Let_def split: prod.splits)

text \<open>
  C6. For a reply to the marking query that frames a document: when it carries
  \<^verbatim>\<open>schemaRequiresEncryption\<close> or \<^verbatim>\<open>hasEncryptedPlaceholders\<close> with a value that
  \<^verbatim>\<open>bson_iter_as_bool\<close> reads as false, \<^verbatim>\<open>_mongo_feed_markings\<close> succeeds and leaves the
  context as it was (nothing stored, no key collected). Otherwise a reply without
  "result" fails with the error "malformed marking, no 'result'", a "result" that is not
  a document fails as well, and a "result" document is stored as the marked command and
  handed to the traversal with the MARKING discriminator and the key-collecting
  callback; the call succeeds exactly when the traversal does, and ends in ERROR
  otherwise. The callback adds the key identifier, or the alternate name, of each marking
  it parses to the key broker. Bytes that frame no document fail with "malformed BSON".
\<close>

theorem mongo_feed_markings_spec:
  "( ((\<exists>v. bson_iter_init_find reply ''schemaRequiresEncryption'' = Some v
            \<and> \<not> bson_iter_as_bool v)
      \<or> (\<exists>v. bson_iter_init_find reply ''hasEncryptedPlaceholders'' = Some v
            \<and> \<not> bson_iter_as_bool v))
     \<longrightarrow> mongo_feed_markings env ctx (Binary_document reply) = (True, ctx))
 \<and> ( \<not> ((\<exists>v. bson_iter_init_find reply ''schemaRequiresEncryption'' = Some v
            \<and> \<not> bson_iter_as_bool v)
      \<or> (\<exists>v. bson_iter_init_find reply ''hasEncryptedPlaceholders'' = Some v
            \<and> \<not> bson_iter_as_bool v))
     \<longrightarrow>
       (bson_iter_init_find reply ''result'' = None \<longrightarrow>
          mongo_feed_markings env ctx (Binary_document reply)
            = (False, ctx\<lparr>status := CLIENT_ERR (''malformed marking, no 'result'' @ [CHR 0x27]),
                          state := MONGOCRYPT_CTX_ERROR\<rparr>))
     \<and> (\<forall>v. bson_iter_init_find reply ''result'' = Some v
              \<longrightarrow> buffer_copy_from_document_iter v = None \<longrightarrow>
          mongo_feed_markings env ctx (Binary_document reply)
            = (False, ctx\<lparr>status := CLIENT_ERR ''malformed marking, 'result' must be a document'',
                          state := MONGOCRYPT_CTX_ERROR\<rparr>))
     \<and> (\<forall>d ok kbr' st.
            bson_iter_init_find reply ''result'' = Some (BSON_DOCUMENT d) \<longrightarrow>
            traverse_binary_in_bson env (collect_key_from_marking env) (kb ctx)
               TRAVERSE_MATCH_MARKING d (status ctx) = (ok, kbr', st) \<longrightarrow>
            mongo_feed_markings env ctx (Binary_document reply)
              = (ok, ctx\<lparr>marked_cmd := Some d, kb := kbr', status := st,
                          state := (if ok then state ctx else MONGOCRYPT_CTX_ERROR)\<rparr>)))
 \<and> (\<forall>b mk kbr st. marking_parse_unowned env b = Inr mk \<longrightarrow>
        collect_key_from_marking env kbr b st =
           (let a = (if has_alt_name mk
                     then key_broker_add_name env kbr (marking_key_alt_name mk)
                     else key_broker_add_id env kbr (marking_key_id mk))
            in (fst a, snd a, if fst a then st else snd (key_broker_status env (snd a) st))))
 \<and> (\<forall>bs. mongo_feed_markings env ctx (Binary_malformed bs)
           = (False, ctx\<lparr>status := CLIENT_ERR ''malformed BSON'',
                         state := MONGOCRYPT_CTX_ERROR\<rparr>))"
proof (intro conjI impI allI)
  assume "(\<exists>v. bson_iter_init_find reply ''schemaRequiresEncryption'' = Some v
            \<and> \<not> bson_iter_as_bool v)
      \<or> (\<exists>v. bson_iter_init_find reply ''hasEncryptedPlaceholders'' = Some v
            \<and> \<not> bson_iter_as_bool v)"
  then show "mongo_feed_markings env ctx (Binary_document reply) = (True, ctx)"
    by (auto simp: mongo_feed_markings_def bson_init_static_def split: option.splits)
next
  assume n: "\<not> ((\<exists>v. bson_iter_init_find reply ''schemaRequiresEncryption'' = Some v
            \<and> \<not> bson_iter_as_bool v)
      \<or> (\<exists>v. bson_iter_init_find reply ''hasEncryptedPlaceholders'' = Some v
            \<and> \<not> bson_iter_as_bool v))"
     and r: "bson_iter_init_find reply ''result'' = None"
  from n r show "mongo_feed_markings env ctx (Binary_document reply)
            = (False, ctx\<lparr>status := CLIENT_ERR (''malformed marking, no 'result'' @ [CHR 0x27]),
                          state := MONGOCRYPT_CTX_ERROR\<rparr>)"
    by (auto simp: mongo_feed_markings_def bson_init_static_def ctx_fail_w_msg_def
             split: option.splits)
next
  fix v
  assume n: "\<not> ((\<exists>v. bson_iter_init_find reply ''schemaRequiresEncryption'' = Some v
            \<and> \<not> bson_iter_as_bool v)
      \<or> (\<exists>v. bson_iter_init_find reply ''hasEncryptedPlaceholders'' = Some v
            \<and> \<not> bson_iter_as_bool v))"
     and r: "bson_iter_init_find reply ''result'' = Some v"
     and nd: "buffer_copy_from_document_iter v = None"
  from n r nd show "mongo_feed_markings env ctx (Binary_document reply)
            = (False, ctx\<lparr>status := CLIENT_ERR ''malformed marking, 'result' must be a document'',
                          state := MONGOCRYPT_CTX_ERROR\<rparr>)"
    by (auto simp: mongo_feed_markings_def bson_init_static_def ctx_fail_w_msg_def
             split: option.splits)
next
  fix d ok kbr' st
  assume n: "\<not> ((\<exists>v. bson_iter_init_find reply ''schemaRequiresEncryption'' = Some v
            \<and> \<not> bson_iter_as_bool v)
      \<or> (\<exists>v. bson_iter_init_find reply ''hasEncryptedPlaceholders'' = Some v
            \<and> \<not> bson_iter_as_bool v))"
     and r: "bson_iter_init_find reply ''result'' = Some (BSON_DOCUMENT d)"
     and t: "traverse_binary_in_bson env (collect_key_from_marking env) (kb ctx)
               TRAVERSE_MATCH_MARKING d (status ctx) = (ok, kbr', st)"
  from n r t show "mongo_feed_markings env ctx (Binary_document reply)
              = (ok, ctx\<lparr>marked_cmd := Some d, kb := kbr', status := st,
                          state := (if ok then state ctx else MONGOCRYPT_CTX_ERROR)\<rparr>)"
    by (auto simp: mongo_feed_markings_def bson_init_static_def ctx_fail_def
               buffer_copy_from_document_iter_def Let_def
             split: option.splits)
next
  fix b mk kbr st
  assume "marking_parse_unowned env b = Inr mk"
  then show "collect_key_from_marking env kbr b st =
           (let a = (if has_alt_name mk
                     then key_broker_add_name env kbr (marking_key_alt_name mk)
                     else key_broker_add_id env kbr (marking_key_id mk))
            in (fst a, snd a, if fst a then st else snd (key_broker_status env (snd a) st)))"
    by (rule collect_key_from_marking_parsed)
next
  fix bs
  show "mongo_feed_markings env ctx (Binary_malformed bs)
           = (False, ctx\<lparr>status := CLIENT_ERR ''malformed BSON'',
                         state := MONGOCRYPT_CTX_ERROR\<rparr>)"
    by (simp add: mongo_feed_markings_def bson_init_static_def ctx_fail_w_msg_def)
qed

theorem mongo_feed_markings_spec_witness:
  "mongo_feed_markings example_env example_ectx_markings (Binary_document example_markings_noop)
     = (True, example_ectx_markings)
   \<and> mongo_feed_markings example_env example_ectx_markings
        (Binary_document example_markings_no_result)
     = (False, example_ectx_markings
          \<lparr>status := CLIENT_ERR (''malformed marking, no 'result'' @ [CHR 0x27]),
           state := MONGOCRYPT_CTX_ERROR\<rparr>)
   \<and> mongo_feed_markings example_env example_ectx_markings
        (Binary_document example_markings_result)
     = (True, example_ectx_markings
          \<lparr>marked_cmd := Some example_marked_cmd, kb := [(example_key, None)]\<rparr>)"
proof -
  note noop = mongo_feed_markings_spec
                [of example_markings_noop example_env example_ectx_markings]
  note nores = mongo_feed_markings_spec
                [of example_markings_no_result example_env example_ectx_markings]
  note res = mongo_feed_markings_spec
                [of example_markings_result example_env example_ectx_markings]
  have a: "mongo_feed_markings example_env example_ectx_markings
             (Binary_document example_markings_noop) = (True, example_ectx_markings)"
    using noop by (simp add: example_markings_noop_def)
  have b: "mongo_feed_markings example_env example_ectx_markings
        (Binary_document example_markings_no_result)
     = (False, example_ectx_markings
          \<lparr>status := CLIENT_ERR (''malformed marking, no 'result'' @ [CHR 0x27]),
           state := MONGOCRYPT_CTX_ERROR\<rparr>)"
    using nores by (simp add: example_markings_no_result_def)
  have parsed: "\<And>b kbr st. collect_key_from_marking example_env kbr b st
                  = (True, if data b \<in> fst ` set kbr then kbr else kbr @ [(data b, None)], st)"
    using res by (simp add: example_env_simps marking_init_def Let_def)
  have trav: "traverse_binary_in_bson example_env (collect_key_from_marking example_env)
                (kb example_ectx_markings) TRAVERSE_MATCH_MARKING example_marked_cmd
                (status example_ectx_markings)
              = (True, [(example_key, None)], Status_ok)"
    by (simp add: example_env_simps(9) example_marked_cmd_def parsed traversal_candidate_def
          traversal_view_def example_sel_def example_ectx_markings_def example_ectx_def)
  have find: "bson_iter_init_find example_markings_result ''result''
                = Some (BSON_DOCUMENT example_marked_cmd)"
    and nn: "\<not> ((\<exists>v. bson_iter_init_find example_markings_result
                        ''schemaRequiresEncryption'' = Some v \<and> \<not> bson_iter_as_bool v)
              \<or> (\<exists>v. bson_iter_init_find example_markings_result
                        ''hasEncryptedPlaceholders'' = Some v \<and> \<not> bson_iter_as_bool v))"
    by (simp_all add: example_markings_result_def)
  from res nn find trav
  have c0: "mongo_feed_markings example_env example_ectx_markings
        (Binary_document example_markings_result)
     = (True, example_ectx_markings
          \<lparr>marked_cmd := Some example_marked_cmd, kb := [(example_key, None)],
           status := Status_ok,
           state := (if True then state example_ectx_markings else MONGOCRYPT_CTX_ERROR)\<rparr>)"
    by blast
  have c: "mongo_feed_markings example_env example_ectx_markings
        (Binary_document example_markings_result)
     = (True, example_ectx_markings
          \<lparr>marked_cmd := Some example_marked_cmd, kb := [(example_key, None)]\<rparr>)"
    unfolding c0 by (simp add: example_ectx_markings_def example_ectx_def)
  show ?thesis by (intro conjI) (fact a b c)+
qed

section \<open>Initialising an automatic-encrypt context\<close>

text \<open>
  C7. \<^verbatim>\<open>mongocrypt_ctx_encrypt_init\<close> fails when the namespace is NULL or has no dot, or
  when an AWS master-key option, the key id, the algorithm or the iv is set (read from
  the context as the common initialisation leaves it). When the common initialisation
  succeeded, the failure is one of the five client errors of this function, the context
  is in ERROR, and nothing else of it changed but the kind and the explicit flag: no
  other state was ever assigned, the namespace was not stored and the cache was not
  consulted.
\<close>

theorem encrypt_init_rejects:
  assumes init: "on_parent (\<lambda>p. ctx_init env p (opts_spec_zero\<lparr>spec_schema := OPT_OPTIONAL\<rparr>))
                   ctx0 = (ok, ctx1)"
      and bad: "nsp = None \<or> (\<exists>s. nsp = Some s \<and> CHR ''.'' \<notin> set s)
              \<or> masterkey_aws_region (opts ctx1) \<noteq> None
              \<or> masterkey_aws_cmk (opts ctx1) \<noteq> None
              \<or> \<not> buffer_empty (opts_key_id (opts ctx1))
              \<or> algorithm (opts ctx1) \<noteq> MONGOCRYPT_ENCRYPTION_ALGORITHM_NONE
              \<or> \<not> buffer_empty (opts_iv (opts ctx1))"
  shows "\<exists>c. mongocrypt_ctx_encrypt_init env cache ctx0 nsp ns_len = Some (False, cache, c)
           \<and> (ok \<longrightarrow>
                (\<exists>msg \<in> {''invalid ns. Must be <db>.<coll>'',
                          ''aws masterkey options must not be set'',
                          ''key_id must not be set for auto encryption'',
                          ''algorithm must not be set for auto encryption'',
                          ''iv must not be set for auto encryption''}.
                   c = ctx1\<lparr>ctx_type := MONGOCRYPT_TYPE_ENCRYPT, ectx_explicit := False,
                           status := CLIENT_ERR msg, state := MONGOCRYPT_CTX_ERROR\<rparr>))"
proof (cases ok)
  case False
  with init show ?thesis
    by (simp add: mongocrypt_ctx_encrypt_init_def Let_def)
next
  case True
  with init bad show ?thesis
    by (auto simp: mongocrypt_ctx_encrypt_init_def Let_def ctx_fail_w_msg_def
             split: option.splits)
qed

theorem encrypt_init_rejects_witness:
  "mongocrypt_ctx_encrypt_init example_env Map.empty example_ectx_new (Some ''dbc'') (- 1)
     = Some (False, Map.empty,
             example_ectx_new\<lparr>initialized := True, ctx_type := MONGOCRYPT_TYPE_ENCRYPT,
                status := CLIENT_ERR ''invalid ns. Must be <db>.<coll>'',
                state := MONGOCRYPT_CTX_ERROR\<rparr>)
   \<and> (\<exists>c. mongocrypt_ctx_encrypt_init example_env Map.empty
             (example_ectx_new\<lparr>opts := example_opts\<lparr>opts_iv := example_blob\<rparr>\<rparr>)
             (Some ''db.c'') (- 1) = Some (False, Map.empty, c)
          \<and> state c = MONGOCRYPT_CTX_ERROR
          \<and> status c = CLIENT_ERR ''iv must not be set for auto encryption'')"
proof -
  let ?spec = "opts_spec_zero\<lparr>spec_schema := OPT_OPTIONAL\<rparr>"
  let ?ctx1 = "example_ectx_new\<lparr>initialized := True\<rparr>"
  have init: "on_parent (\<lambda>p. ctx_init example_env p ?spec) example_ectx_new = (True, ?ctx1)"
    by (simp add: on_parent_def example_env_simps example_ectx_new_def example_ectx_def
          mongocrypt_ctx.truncate_def mongocrypt_ctx.extend_def)
  have bad: "Some ''dbc'' = None \<or> (\<exists>s. Some ''dbc'' = Some s \<and> CHR ''.'' \<notin> set s)
              \<or> masterkey_aws_region (opts ?ctx1) \<noteq> None
              \<or> masterkey_aws_cmk (opts ?ctx1) \<noteq> None
              \<or> \<not> buffer_empty (opts_key_id (opts ?ctx1))
              \<or> algorithm (opts ?ctx1) \<noteq> MONGOCRYPT_ENCRYPTION_ALGORITHM_NONE
              \<or> \<not> buffer_empty (opts_iv (opts ?ctx1))"
    by simp
  from encrypt_init_rejects [OF init bad, of "Map.empty" "- 1"]
  obtain c msg where c: "mongocrypt_ctx_encrypt_init example_env Map.empty example_ectx_new
                       (Some ''dbc'') (- 1) = Some (False, Map.empty, c)"
     and ceq: "c = ?ctx1\<lparr>ctx_type := MONGOCRYPT_TYPE_ENCRYPT, ectx_explicit := False,
                           status := CLIENT_ERR msg, state := MONGOCRYPT_CTX_ERROR\<rparr>"
    by auto
  have direct: "mongocrypt_ctx_encrypt_init example_env Map.empty example_ectx_new
                       (Some ''dbc'') (- 1)
      = Some (False, Map.empty,
             example_ectx_new\<lparr>initialized := True, ctx_type := MONGOCRYPT_TYPE_ENCRYPT,
                status := CLIENT_ERR ''invalid ns. Must be <db>.<coll>'',
                state := MONGOCRYPT_CTX_ERROR\<rparr>)"
    using c ceq init
    by (simp add: mongocrypt_ctx_encrypt_init_def Let_def ctx_fail_w_msg_def
          example_ectx_new_def example_ectx_def)
  let ?ctx0' = "example_ectx_new\<lparr>opts := example_opts\<lparr>opts_iv := example_blob\<rparr>\<rparr>"
  let ?ctx1' = "?ctx0'\<lparr>initialized := True\<rparr>"
  have init': "on_parent (\<lambda>p. ctx_init example_env p ?spec) ?ctx0' = (True, ?ctx1')"
    by (simp add: on_parent_def example_env_simps example_ectx_new_def example_ectx_def
          mongocrypt_ctx.truncate_def mongocrypt_ctx.extend_def)
  have opts': "opts ?ctx1' = example_opts\<lparr>opts_iv := example_blob\<rparr>" by simp
  have bad': "Some ''db.c'' = None \<or> (\<exists>s. Some ''db.c'' = Some s \<and> CHR ''.'' \<notin> set s)
              \<or> masterkey_aws_region (opts ?ctx1') \<noteq> None
              \<or> masterkey_aws_cmk (opts ?ctx1') \<noteq> None
              \<or> \<not> buffer_empty (opts_key_id (opts ?ctx1'))
              \<or> algorithm (opts ?ctx1') \<noteq> MONGOCRYPT_ENCRYPTION_ALGORITHM_NONE
              \<or> \<not> buffer_empty (opts_iv (opts ?ctx1'))"
    unfolding opts' by (simp add: buffer_empty_def example_blob_def)
  from encrypt_init_rejects [OF init' bad', of "Map.empty" "- 1"]
  obtain c' msg' where c': "mongocrypt_ctx_encrypt_init example_env Map.empty ?ctx0'
                       (Some ''db.c'') (- 1) = Some (False, Map.empty, c')"
     and ceq': "c' = ?ctx1'\<lparr>ctx_type := MONGOCRYPT_TYPE_ENCRYPT, ectx_explicit := False,
                           status := CLIENT_ERR msg', state := MONGOCRYPT_CTX_ERROR\<rparr>"
    by auto
  have st': "state c' = MONGOCRYPT_CTX_ERROR" using ceq' by simp
  have "c' = ?ctx1'\<lparr>ctx_type := MONGOCRYPT_TYPE_ENCRYPT, ectx_explicit := False,
                     status := CLIENT_ERR ''iv must not be set for auto encryption'',
                     state := MONGOCRYPT_CTX_ERROR\<rparr>"
    using c' [symmetric] init'
    by (simp add: mongocrypt_ctx_encrypt_init_def Let_def ctx_fail_w_msg_def
          example_opts_def buffer_empty_def buffer_init_def example_blob_def)
  then have msg': "status c' = CLIENT_ERR ''iv must not be set for auto encryption''"
    by simp
  from direct c' st' msg' show ?thesis by blast
qed

section \<open>The transform engine of the spec\<close>






section \<open>Decryption\<close>


lemma replace_ciphertext_missing_key:
  assumes "parse_ciphertext_unowned b = Inr ct"
      and "key_broker_decrypted_key_by_id env kbr (key_id ct) = None"
  shows "replace_ciphertext_with_plaintext env kbr b out st = (True, out, st)"
  using assms by (simp add: replace_ciphertext_with_plaintext_def)





text \<open>
  Explicit decryption of a value whose key the broker cannot supply: for every such
  context \<^verbatim>\<open>_finalize\<close> succeeds and wraps the local \<^verbatim>\<open>value\<close> that nothing wrote.
\<close>

lemma explicit_finalize_missing_key:
  assumes "dctx_explicit ctx"
      and "parse_ciphertext_unowned (unwrapped_doc ctx) = Inr ct"
      and "key_broker_decrypted_key_by_id env (kb ctx) (key_id ct) = None"
  shows "decrypt_finalize env locals ctx (Some outb)
           = (True,
              ctx\<lparr>decrypted_doc := Some [(''v'', value0 locals)],
                  state := MONGOCRYPT_CTX_DONE\<rparr>,
              Some (Some [(''v'', value0 locals)]))"
  using assms
  by (simp add: decrypt_finalize_def replace_ciphertext_missing_key Let_def)


section \<open>The state after the collection info is known\<close>

text \<open>
  A cache hit on a reply that is no view and carries no schema: the context moves to
  NEED_MONGO_MARKINGS and its schema is what it was.
\<close>

lemma try_collinfo_from_cache_done:
  assumes "cache_get_or_create env cache (ns ctx) (ctx_id ctx)
             = (cache', Some d, CACHE_PAIR_DONE, owner)"
      and "bson_iter_init_find d ''type'' = None"
      and "bson_iter_find_descendant d [''options'', ''validator'', ''$jsonSchema''] = None"
  shows "try_collinfo_from_cache env cache ctx
           = Some (True, cache',
                   ctx\<lparr>collinfo_owner := owner, collinfo_state := CACHE_PAIR_DONE,
                       waiting_for_collinfo := False,
                       state := MONGOCRYPT_CTX_NEED_MONGO_MARKINGS\<rparr>)"
  using assms
  by (simp add: try_collinfo_from_cache_def set_schema_from_collinfo_def bson_iter_init_def
        Let_def)

lemma encrypt_init_cache_hit_with_empty_schema:
  "mongocrypt_ctx_encrypt_init example_env (example_cache_done example_collinfo_plain)
       example_ectx_new (Some ''db.c'') (- 1)
     = Some (True, example_cache_done example_collinfo_plain,
             example_ectx_new\<lparr>initialized := True, ctx_type := MONGOCRYPT_TYPE_ENCRYPT,
               ns := Some ''db.c'', coll_name := Some ''c'',
               collinfo_state := CACHE_PAIR_DONE,
               state := MONGOCRYPT_CTX_NEED_MONGO_MARKINGS\<rparr>)"
  by (simp add: mongocrypt_ctx_encrypt_init_def try_collinfo_from_cache_def
        set_schema_from_collinfo_def on_parent_def example_env_simps
        example_ectx_new_def example_ectx_def example_opts_def example_cache_done_def
        example_collinfo_plain_def spec_cache_get_or_create_def bson_iter_init_def
        buffer_empty_def document_buffer_empty_def buffer_init_def c_str_def
        mongocrypt_ctx.truncate_def mongocrypt_ctx.extend_def Let_def)

text \<open>
  C4, the code at the failing input. A context consults the cache for a namespace
  whose entry is done and holds a reply without a validator. The schema stays empty,
  yet \<^verbatim>\<open>_try_collinfo_from_cache\<close> moves the context to NEED_MONGO_MARKINGS, where
  \<^verbatim>\<open>_mongo_done_collinfo\<close> on the same empty schema moves to NOTHING_TO_DO. The lemma
  above reaches the same state through \<^verbatim>\<open>mongocrypt_ctx_encrypt_init\<close>.
\<close>

theorem cache_hit_with_empty_schema:
  "try_collinfo_from_cache example_env (example_cache_done example_collinfo_plain)
       example_ectx_other
     = Some (True, example_cache_done example_collinfo_plain,
             example_ectx_other\<lparr>collinfo_state := CACHE_PAIR_DONE,
                                state := MONGOCRYPT_CTX_NEED_MONGO_MARKINGS\<rparr>)
   \<and> document_buffer_empty (schema example_ectx_other)
   \<and> mongo_done_collinfo (example_ectx_other\<lparr>state := MONGOCRYPT_CTX_NEED_MONGO_COLLINFO\<rparr>)
     = (True, example_ectx_other\<lparr>state := MONGOCRYPT_CTX_NOTHING_TO_DO\<rparr>)"
  by (simp add: try_collinfo_from_cache_def set_schema_from_collinfo_def example_env_simps
        example_ectx_other_def example_ectx_new_def example_ectx_def example_cache_done_def
        example_collinfo_plain_def spec_cache_get_or_create_def bson_iter_init_def
        document_buffer_empty_def c_str_def mongo_done_collinfo_def Let_def)

section \<open>The order of the states\<close>




















end
